theory Spec2Isabelle
  imports Complex_Main "HOL-Library.List_Lexorder" "HOL-Library.Product_Lexorder"
begin

section \<open>Community Connect: data access layer and request handlers\<close>

text \<open>
  A shallow embedding of \<^verbatim>\<open>deliverable2/database.py\<close>, \<^verbatim>\<open>deliverable2/app.py\<close> and
  \<^verbatim>\<open>deliverable3/database.py\<close>. The Python functions become HOL functions of the same
  name; every SQL statement of the source becomes a function on the tables it reads and
  writes; exceptions are values; the database and the number of connections opened so far
  are threaded through every call.
\<close>

subsection \<open>Python strings and exceptions\<close>

text \<open>
  A Python \<^verbatim>\<open>str\<close> is a sequence of Unicode code points, so a string is a list of
  naturals; \<open>lit\<close> turns an ASCII literal of the source into one. SQLite compares TEXT
  under its default BINARY collation byte by byte on the UTF-8 encoding, which is the
  lexicographic order on code points: the order of \<open>nat list\<close>.
\<close>

type_synonym pystr = "nat list"

definition cp :: "char \<Rightarrow> nat" where
  "cp c = of_char c"

definition lit :: "string \<Rightarrow> pystr" where
  "lit s = map cp s"

text \<open>
  The faults of the storage engine all arrive as subclasses of \<^verbatim>\<open>sqlite3.Error\<close>; the
  last one is the engine's refusal of a value longer than its length limit
  (\<^verbatim>\<open>sqlite3.DataError\<close>). \<^verbatim>\<open>OverflowError\<close> and \<^verbatim>\<open>UnicodeEncodeError\<close> are what
  the \<^verbatim>\<open>sqlite3\<close> module raises when a value bound to a \<^verbatim>\<open>?\<close> placeholder cannot be
  handed to the engine: a Python integer that does not fit SQLite's signed 64-bit
  INTEGER or a string of more than \<open>2^31 - 1\<close> bytes, and a string that has no UTF-8
  encoding. Neither is a subclass of \<^verbatim>\<open>sqlite3.Error\<close>.
\<close>

datatype storage_fault = ConnectionFailure | ConstraintViolation | MalformedSQL | ValueTooBig

datatype py_exception =
  Sqlite3Error storage_fault | OverflowError | UnicodeEncodeError | TypeError | IndexError

datatype 'a outcome = Returned 'a | Raised py_exception

subsection \<open>Validation utilities\<close>

text \<open>\<^verbatim>\<open>s.split(sep)\<close> for a one-character separator: one more piece than separators.\<close>

fun split_on :: "nat \<Rightarrow> pystr \<Rightarrow> pystr list" where
  "split_on sep [] = [[]]"
| "split_on sep (c # cs) =
     (if c = sep then [] # split_on sep cs
      else (case split_on sep cs of
              [] \<Rightarrow> [[c]]
            | w # ws \<Rightarrow> (c # w) # ws))"

text \<open>\<^verbatim>\<open>xs[-1]\<close>: the last element, \<^verbatim>\<open>IndexError\<close> on an empty list.\<close>

definition index_neg1 :: "'a list \<Rightarrow> 'a outcome" where
  "index_neg1 xs = (if xs = [] then Raised IndexError else Returned (last xs))"

text \<open>
  \<^verbatim>\<open>return '@' in email and '.' in email.split('@')[-1]\<close>; \<^verbatim>\<open>and\<close> evaluates its
  right operand only when the left one holds.
\<close>

definition validate_email :: "pystr \<Rightarrow> bool outcome" where
  "validate_email email =
     (if cp CHR ''@'' \<notin> set email then Returned False
      else (case index_neg1 (split_on (cp CHR ''@'') email) of
              Raised x \<Rightarrow> Raised x
            | Returned domain \<Rightarrow> Returned (cp CHR ''.'' \<in> set domain)))"

text \<open>\<^verbatim>\<open>s.replace(c, '')\<close> for a one-character \<open>c\<close>: every occurrence is removed.\<close>

definition replace_char :: "nat \<Rightarrow> pystr \<Rightarrow> pystr" where
  "replace_char c s = filter (\<lambda>x. x \<noteq> c) s"

text \<open>
  \<^verbatim>\<open>str.isdigit\<close> holds of a non-empty string whose characters all have the Unicode
  property Numeric_Type=Digit or Numeric_Type=Decimal. The ranges below are the code
  points with that property in Unicode 14.0 (the table of CPython 3.11): the ASCII
  digits first, then among others the superscript digits U+00B2, U+00B3 and U+00B9 and
  the decimal digits of other scripts.
\<close>

definition isdigit_ranges :: "(nat \<times> nat) list" where
  "isdigit_ranges =
     [(48, 57), (178, 179), (185, 185), (1632, 1641), (1776, 1785), (1984, 1993),
      (2406, 2415), (2534, 2543), (2662, 2671), (2790, 2799), (2918, 2927), (3046, 3055),
      (3174, 3183), (3302, 3311), (3430, 3439), (3558, 3567), (3664, 3673), (3792, 3801),
      (3872, 3881), (4160, 4169), (4240, 4249), (4969, 4977), (6112, 6121), (6160, 6169),
      (6470, 6479), (6608, 6618), (6784, 6793), (6800, 6809), (6992, 7001), (7088, 7097),
      (7232, 7241), (7248, 7257), (8304, 8304), (8308, 8313), (8320, 8329), (9312, 9320),
      (9332, 9340), (9352, 9360), (9450, 9450), (9461, 9469), (9471, 9471), (10102, 10110),
      (10112, 10120), (10122, 10130), (42528, 42537), (43216, 43225), (43264, 43273),
      (43472, 43481), (43504, 43513), (43600, 43609), (44016, 44025), (65296, 65305),
      (66720, 66729), (68160, 68163), (68912, 68921), (69216, 69224), (69714, 69722),
      (69734, 69743), (69872, 69881), (69942, 69951), (70096, 70105), (70384, 70393),
      (70736, 70745), (70864, 70873), (71248, 71257), (71360, 71369), (71472, 71481),
      (71904, 71913), (72016, 72025), (72784, 72793), (73040, 73049), (73120, 73129),
      (92768, 92777), (92864, 92873), (93008, 93017), (120782, 120831), (123200, 123209),
      (123632, 123641), (125264, 125273), (127232, 127242), (130032, 130041)]"

definition char_isdigit :: "nat \<Rightarrow> bool" where
  "char_isdigit c = list_ex (\<lambda>(lo, hi). lo \<le> c \<and> c \<le> hi) isdigit_ranges"

definition isdigit :: "pystr \<Rightarrow> bool" where
  "isdigit s = (s \<noteq> [] \<and> list_all char_isdigit s)"

definition validate_phone :: "pystr \<Rightarrow> bool" where
  "validate_phone phone =
     (let clean_phone =
            replace_char (cp CHR '')'')
              (replace_char (cp CHR ''('')
                (replace_char (cp CHR '' '')
                  (replace_char (cp CHR ''-'') phone)))
      in isdigit clean_phone \<and> 10 \<le> length clean_phone)"

text \<open>
  The phone rule in the words of the specification, for comparison with the code: delete
  the four separators; what remains is non-empty, all decimal digits \<open>0\<close> to \<open>9\<close>, and at
  least ten characters long.
\<close>

definition phone_rule_as_stated :: "pystr \<Rightarrow> bool" where
  "phone_rule_as_stated s =
     (let r = filter (\<lambda>c. c \<noteq> cp CHR ''-'' \<and> c \<noteq> cp CHR '' '' \<and> c \<noteq> cp CHR ''(''
                            \<and> c \<noteq> cp CHR '')'') s
      in r \<noteq> [] \<and> list_all (\<lambda>c. cp CHR ''0'' \<le> c \<and> c \<le> cp CHR ''9'') r \<and> 10 \<le> length r)"

text \<open>
  \<^verbatim>\<open>str.strip()\<close> removes leading and trailing characters for which
  \<^verbatim>\<open>str.isspace\<close> holds; the ranges are those of Unicode 14.0.
\<close>

definition isspace_ranges :: "(nat \<times> nat) list" where
  "isspace_ranges =
     [(9, 13), (28, 32), (133, 133), (160, 160), (5760, 5760), (8192, 8202), (8232, 8233),
      (8239, 8239), (8287, 8287), (12288, 12288)]"

definition char_isspace :: "nat \<Rightarrow> bool" where
  "char_isspace c = list_ex (\<lambda>(lo, hi). lo \<le> c \<and> c \<le> hi) isspace_ranges"

definition strip :: "pystr \<Rightarrow> pystr" where
  "strip s = rev (dropWhile char_isspace (rev (dropWhile char_isspace s)))"

subsection \<open>Tables\<close>

text \<open>
  Modelled from the spec: the table declarations. The schema file is not among the
  sources, so the columns are those the statements of the source name and section 3 of
  the specification lists; every column is taken as NOT NULL, keys and counts as SQLite
  integers, everything else as TEXT. A table is the list of its rows in storage order.
\<close>

record volunteer =
  volunteer_id :: int
  first_name :: pystr
  last_name :: pystr
  date_of_birth :: pystr
  email :: pystr
  phone :: pystr
  address :: pystr
  registration_date :: pystr

record organisation =
  org_id :: int
  org_name :: pystr
  contact_email :: pystr
  org_phone :: pystr
  org_address :: pystr
  org_type :: pystr
  org_description :: pystr

record event =
  event_id :: int
  event_name :: pystr
  event_description :: pystr
  start_date :: pystr
  end_date :: pystr
  location :: pystr
  max_volunteers :: int
  event_org_id :: int

record skill =
  skill_id :: int
  skill_name :: pystr
  skill_description :: pystr
  skill_category :: pystr

record volunteer_event =
  ve_volunteer_id :: int
  ve_event_id :: int
  ve_registration_date :: pystr
  attendance_status :: pystr

record volunteer_skill =
  vs_volunteer_id :: int
  vs_skill_id :: int
  proficiency_level :: pystr
  years_experience :: int

record event_skill =
  es_event_id :: int
  es_skill_id :: int

record database =
  volunteers :: "volunteer list"
  organisations :: "organisation list"
  skills :: "skill list"
  events :: "event list"
  volunteer_events :: "volunteer_event list"
  volunteer_skills :: "volunteer_skill list"
  event_skills :: "event_skill list"

subsection \<open>The storage engine as the code meets it\<close>

text \<open>
  What one connection meets: the fault, if any, that \<^verbatim>\<open>sqlite3.connect\<close> (or the PRAGMA
  after it), the preparation of the statement, its execution, \<^verbatim>\<open>fetchall\<close> and
  \<^verbatim>\<open>commit\<close> raise for reasons outside the tables (a missing or locked file, a
  missing table, malformed SQL, an I/O error), the connection's limit on the length of a
  value in bytes (SQLITE_LIMIT_LENGTH, 1000000000 unless changed), and the engine's
  clock.
\<close>

record conditions =
  connect_fault :: "storage_fault option"
  prepare_fault :: "storage_fault option"
  step_fault :: "storage_fault option"
  fetch_fault :: "storage_fault option"
  commit_fault :: "storage_fault option"
  length_limit :: nat
  current_timestamp :: pystr

text \<open>
  What the declaration of a foreign key from an association table to EVENT does when a
  referenced EVENT row is deleted under \<^verbatim>\<open>PRAGMA foreign_keys = ON\<close>: nothing (no foreign
  key declared), reject the statement (NO ACTION, the default, and RESTRICT), or delete
  the referencing rows (CASCADE). SET NULL and SET DEFAULT need a nullable column and
  are left out.
\<close>

datatype fk_action = NoForeignKey | NoAction | Cascade

text \<open>
  The parts of an installation that are not in the sources and are therefore parameters:
  the tables \<^verbatim>\<open>sqlite_master\<close> lists, the foreign-key actions of the two association
  tables of EVENT, whether the engine accepts a VOLUNTEER row next to the other rows
  (the constraints the table declares and the engine's limit on the size of a row), the rowid the engine gives the next VOLUNTEER row, the engine's
  \<^verbatim>\<open>CAST((julianday(end) - julianday(start)) AS INTEGER)\<close> (NULL for text that is no
  date), and what the \<open>k\<close>-th connection opened meets.
\<close>

record installation =
  table_names :: "pystr list"
  ve_event_fk :: fk_action
  es_event_fk :: fk_action
  volunteer_constraints :: "volunteer \<Rightarrow> volunteer list \<Rightarrow> bool"
  new_volunteer_id :: "volunteer list \<Rightarrow> int"
  duration_days :: "pystr \<Rightarrow> pystr \<Rightarrow> int option"
  conditions_at :: "nat \<Rightarrow> conditions"

text \<open>The state: the committed tables, and how many connections were opened so far.\<close>

record world =
  db :: database
  opened :: nat

text \<open>Sequencing of calls that may raise: an exception ends the computation.\<close>

definition then_do ::
  "'a outcome \<times> world \<Rightarrow> ('a \<Rightarrow> world \<Rightarrow> 'b outcome \<times> world) \<Rightarrow> 'b outcome \<times> world" where
  "then_do m k = (case m of (Raised x, w) \<Rightarrow> (Raised x, w) | (Returned a, w) \<Rightarrow> k a w)"

text \<open>
  \<^verbatim>\<open>get_db_connection\<close>: \<^verbatim>\<open>try: ... return conn  except sqlite3.Error: return None\<close>.
  The connection is represented by the conditions it meets.
\<close>

definition get_db_connection :: "installation \<Rightarrow> world \<Rightarrow> conditions option outcome \<times> world" where
  "get_db_connection inst w =
     (let c = conditions_at inst (opened w);
          w' = w\<lparr>opened := Suc (opened w)\<rparr>
      in case (case connect_fault c of
                 Some f \<Rightarrow> Raised (Sqlite3Error f)
               | None \<Rightarrow> Returned (Some c)) of
           Raised (Sqlite3Error f) \<Rightarrow> (Returned None, w')
         | Raised x \<Rightarrow> (Raised x, w')
         | Returned conn \<Rightarrow> (Returned conn, w'))"

text \<open>
  A statement of the source, with its parameters already in place, is a function from
  the tables to a constraint fault or to the rows it yields, its \<^verbatim>\<open>rowcount\<close> and the
  tables after it. The parameters bound to its placeholders are passed along as values.
\<close>

type_synonym 'r statement = "database \<Rightarrow> storage_fault + ('r list \<times> int \<times> database)"

datatype sql_param = SqlInt int | SqlText pystr

text \<open>
  Binding one parameter. An integer must lie in the signed 64-bit range. A string is
  encoded in UTF-8 first, which fails on a surrogate code point (U+D800 to U+DFFF); its
  encoding must not be longer than \<open>2^31 - 1\<close> bytes; and the engine refuses an encoding
  longer than the connection's length limit with a \<^verbatim>\<open>sqlite3.DataError\<close>.
\<close>

definition surrogate :: "nat \<Rightarrow> bool" where
  "surrogate c = (55296 \<le> c \<and> c \<le> 57343)"

definition utf8_length :: "pystr \<Rightarrow> nat" where
  "utf8_length s =
     sum_list (map (\<lambda>c. if c < 128 then 1 else if c < 2048 then 2
                          else if c < 65536 then 3 else 4) s)"

fun bind_param :: "conditions \<Rightarrow> sql_param \<Rightarrow> py_exception option" where
  "bind_param c (SqlInt n) =
     (if - (2 ^ 63) \<le> n \<and> n < 2 ^ 63 then None else Some OverflowError)"
| "bind_param c (SqlText s) =
     (if list_ex surrogate s then Some UnicodeEncodeError
      else if utf8_length s > 2147483647 then Some OverflowError
      else if utf8_length s > length_limit c then Some (Sqlite3Error ValueTooBig)
      else None)"

text \<open>The parameters are bound in order; the first that cannot be bound raises.\<close>

fun bind_parameters :: "conditions \<Rightarrow> sql_param list \<Rightarrow> py_exception option" where
  "bind_parameters c [] = None"
| "bind_parameters c (p # ps) =
     (case bind_param c p of
        Some x \<Rightarrow> Some x
      | None \<Rightarrow> bind_parameters c ps)"

text \<open>
  \<^verbatim>\<open>cursor.execute(query, params)\<close>: the statement is prepared, then the parameters are
  bound, then it runs.
\<close>

definition cursor_execute ::
  "conditions \<Rightarrow> 'r statement \<Rightarrow> sql_param list \<Rightarrow> database
     \<Rightarrow> ('r list \<times> int \<times> database) outcome" where
  "cursor_execute c stmt params d =
     (case prepare_fault c of
        Some f \<Rightarrow> Raised (Sqlite3Error f)
      | None \<Rightarrow>
          (case bind_parameters c params of
             Some x \<Rightarrow> Raised x
           | None \<Rightarrow>
               (case step_fault c of
                  Some f \<Rightarrow> Raised (Sqlite3Error f)
                | None \<Rightarrow> (case stmt d of
                              Inl f \<Rightarrow> Raised (Sqlite3Error f)
                            | Inr r \<Rightarrow> Returned r))))"

text \<open>What the data access functions return: \<^verbatim>\<open>None\<close>, a row count, or a list of rows.\<close>

datatype 'r pyval = PyNone | PyInt int | PyList "'r list"

fun truthy :: "'r pyval \<Rightarrow> bool" where
  "truthy PyNone = False"
| "truthy (PyInt n) = (n \<noteq> 0)"
| "truthy (PyList rows) = (rows \<noteq> [])"

text \<open>
  The \<^verbatim>\<open>try\<close> block of \<^verbatim>\<open>execute_query\<close>. With \<^verbatim>\<open>fetch\<close> the connection is closed
  without a commit, so the tables stay as they were.
\<close>

definition query_body ::
  "conditions \<Rightarrow> 'r statement \<Rightarrow> sql_param list \<Rightarrow> bool \<Rightarrow> database
     \<Rightarrow> ('r pyval \<times> database) outcome" where
  "query_body c stmt params fetch d =
     (case cursor_execute c stmt params d of
        Raised x \<Rightarrow> Raised x
      | Returned (rows, rowcount, d') \<Rightarrow>
          if fetch then
            (case fetch_fault c of
               Some f \<Rightarrow> Raised (Sqlite3Error f)
             | None \<Rightarrow> Returned (PyList rows, d))
          else
            (case commit_fault c of
               Some f \<Rightarrow> Raised (Sqlite3Error f)
             | None \<Rightarrow> Returned (PyInt rowcount, d')))"

definition execute_query ::
  "installation \<Rightarrow> 'r statement \<Rightarrow> sql_param list \<Rightarrow> bool \<Rightarrow> world
     \<Rightarrow> 'r pyval outcome \<times> world" where
  "execute_query inst stmt params fetch w =
     then_do (get_db_connection inst w) (\<lambda>conn w1.
       case conn of
         None \<Rightarrow> (Returned PyNone, w1)
       | Some c \<Rightarrow>
           (case query_body c stmt params fetch (db w1) of
              Raised (Sqlite3Error f) \<Rightarrow> (Returned PyNone, w1)
            | Raised x \<Rightarrow> (Raised x, w1)
            | Returned (v, d) \<Rightarrow> (Returned v, w1\<lparr>db := d\<rparr>)))"

subsection \<open>Data access: volunteers, organisations, events\<close>

text \<open>
  \<^verbatim>\<open>INSERT INTO VOLUNTEER (first_name, ..., address) VALUES (?, ?, ?, ?, ?, ?)\<close>: the
  engine supplies the id and the registration date.
\<close>

definition insert_volunteer ::
  "installation \<Rightarrow> conditions \<Rightarrow> pystr \<Rightarrow> pystr \<Rightarrow> pystr \<Rightarrow> pystr \<Rightarrow> pystr \<Rightarrow> pystr
     \<Rightarrow> 'r statement" where
  "insert_volunteer inst c fname lname dob mail tel addr d =
     (let row = \<lparr>volunteer_id = new_volunteer_id inst (volunteers d),
                 first_name = fname, last_name = lname, date_of_birth = dob,
                 email = mail, phone = tel, address = addr,
                 registration_date = current_timestamp c\<rparr>
      in if volunteer_constraints inst row (volunteers d)
         then Inr ([], 1, d\<lparr>volunteers := volunteers d @ [row]\<rparr>)
         else Inl ConstraintViolation)"

text \<open>
  \<^verbatim>\<open>create_volunteer\<close> has its own \<^verbatim>\<open>try\<close> block and returns
  \<^verbatim>\<open>cursor.lastrowid\<close>, the id of the inserted row.
\<close>

definition create_volunteer ::
  "installation \<Rightarrow> pystr \<Rightarrow> pystr \<Rightarrow> pystr \<Rightarrow> pystr \<Rightarrow> pystr \<Rightarrow> pystr \<Rightarrow> world
     \<Rightarrow> 'r pyval outcome \<times> world" where
  "create_volunteer inst fname lname dob mail tel addr w =
     then_do (get_db_connection inst w) (\<lambda>conn w1.
       case conn of
         None \<Rightarrow> (Returned PyNone, w1)
       | Some c \<Rightarrow>
           (case (case cursor_execute c
                         (insert_volunteer inst c fname lname dob mail tel addr
                            :: volunteer statement)
                         [SqlText fname, SqlText lname, SqlText dob, SqlText mail,
                          SqlText tel, SqlText addr]
                         (db w1) of
                    Raised x \<Rightarrow> Raised x
                  | Returned (rows, rowcount, d') \<Rightarrow>
                      (case commit_fault c of
                         Some f \<Rightarrow> Raised (Sqlite3Error f)
                       | None \<Rightarrow>
                           Returned (PyInt (new_volunteer_id inst (volunteers (db w1))), d'))) of
              Raised (Sqlite3Error f) \<Rightarrow> (Returned PyNone, w1)
            | Raised x \<Rightarrow> (Raised x, w1)
            | Returned (v, d) \<Rightarrow> (Returned v, w1\<lparr>db := d\<rparr>)))"

text \<open>
  \<^verbatim>\<open>SELECT ... FROM VOLUNTEER ORDER BY last_name, first_name\<close>. ORDER BY is a stable
  sort of the rows in storage order; the order SQLite gives rows with equal keys is not
  documented, and no statement below depends on it.
\<close>

definition select_all_volunteers :: "volunteer statement" where
  "select_all_volunteers d =
     Inr (sort_key (\<lambda>v. (last_name v, first_name v)) (volunteers d), - 1, d)"

definition get_all_volunteers :: "installation \<Rightarrow> world \<Rightarrow> volunteer pyval outcome \<times> world" where
  "get_all_volunteers inst w = execute_query inst select_all_volunteers [] True w"

text \<open>\<^verbatim>\<open>SELECT ... FROM VOLUNTEER WHERE volunteer_id = ?\<close>\<close>

definition select_volunteer_by_id :: "int \<Rightarrow> volunteer statement" where
  "select_volunteer_by_id vid d =
     Inr (filter (\<lambda>v. volunteer_id v = vid) (volunteers d), - 1, d)"

text \<open>
  \<^verbatim>\<open>results[0] if results else None\<close>; an integer cannot be indexed. A fetched row is
  never empty, so a row is truthy.
\<close>

fun first_or_none :: "'r pyval \<Rightarrow> 'r option outcome" where
  "first_or_none PyNone = Returned None"
| "first_or_none (PyList []) = Returned None"
| "first_or_none (PyList (r # rs)) = Returned (Some r)"
| "first_or_none (PyInt n) = (if n = 0 then Returned None else Raised TypeError)"

definition get_volunteer_by_id ::
  "installation \<Rightarrow> int \<Rightarrow> world \<Rightarrow> volunteer option outcome \<times> world" where
  "get_volunteer_by_id inst vid w =
     then_do (execute_query inst (select_volunteer_by_id vid) [SqlInt vid] True w)
       (\<lambda>results w1. (first_or_none results, w1))"

text \<open>\<^verbatim>\<open>UPDATE VOLUNTEER SET phone = ? WHERE volunteer_id = ?\<close>\<close>

definition update_phone :: "installation \<Rightarrow> pystr \<Rightarrow> int \<Rightarrow> 'r statement" where
  "update_phone inst new_phone vid d =
     (let hit = filter (\<lambda>v. volunteer_id v = vid) (volunteers d);
          others = filter (\<lambda>v. volunteer_id v \<noteq> vid) (volunteers d)
      in if list_all (\<lambda>v. volunteer_constraints inst (v\<lparr>phone := new_phone\<rparr>) others) hit
         then Inr ([], int (length hit),
                   d\<lparr>volunteers :=
                        map (\<lambda>v. if volunteer_id v = vid then v\<lparr>phone := new_phone\<rparr> else v)
                          (volunteers d)\<rparr>)
         else Inl ConstraintViolation)"

definition update_volunteer_phone ::
  "installation \<Rightarrow> int \<Rightarrow> pystr \<Rightarrow> world \<Rightarrow> volunteer pyval outcome \<times> world" where
  "update_volunteer_phone inst vid new_phone w =
     execute_query inst (update_phone inst new_phone vid) [SqlText new_phone, SqlInt vid] False w"

text \<open>\<^verbatim>\<open>SELECT ... FROM ORGANISATION ORDER BY org_name\<close>\<close>

definition select_all_organisations :: "organisation statement" where
  "select_all_organisations d = Inr (sort_key org_name (organisations d), - 1, d)"

definition get_all_organisations ::
  "installation \<Rightarrow> world \<Rightarrow> organisation pyval outcome \<times> world" where
  "get_all_organisations inst w = execute_query inst select_all_organisations [] True w"

text \<open>
  \<^verbatim>\<open>SELECT e.event_id, ..., e.max_volunteers, o.org_name FROM EVENT e
  JOIN ORGANISATION o ON e.org_id = o.org_id ORDER BY e.start_date\<close>
\<close>

record event_row =
  er_event_id :: int
  er_event_name :: pystr
  er_description :: pystr
  er_start_date :: pystr
  er_end_date :: pystr
  er_location :: pystr
  er_max_volunteers :: int
  er_org_name :: pystr

definition select_all_events :: "event_row statement" where
  "select_all_events d =
     Inr (sort_key er_start_date
            (map (\<lambda>(e, org).
                    \<lparr>er_event_id = event_id e, er_event_name = event_name e,
                     er_description = event_description e, er_start_date = start_date e,
                     er_end_date = end_date e, er_location = location e,
                     er_max_volunteers = max_volunteers e, er_org_name = org_name org\<rparr>)
               [(e, org). e \<leftarrow> events d, org \<leftarrow> organisations d, event_org_id e = org_id org]),
          - 1, d)"

definition get_all_events :: "installation \<Rightarrow> world \<Rightarrow> event_row pyval outcome \<times> world" where
  "get_all_events inst w = execute_query inst select_all_events [] True w"

text \<open>
  \<^verbatim>\<open>DELETE FROM EVENT WHERE event_id = ?\<close> on a connection with foreign keys enforced:
  when a row is deleted that an association row refers to, the declared action decides.
  \<^verbatim>\<open>rowcount\<close> counts the EVENT rows deleted, not the rows a cascade removes.
\<close>

definition delete_event_stmt :: "installation \<Rightarrow> int \<Rightarrow> 'r statement" where
  "delete_event_stmt inst eid d =
     (let hit = filter (\<lambda>e. event_id e = eid) (events d);
          ve_refs = filter (\<lambda>r. ve_event_id r = eid) (volunteer_events d);
          es_refs = filter (\<lambda>r. es_event_id r = eid) (event_skills d)
      in if hit = [] then Inr ([], 0, d)
         else if (ve_event_fk inst = NoAction \<and> ve_refs \<noteq> [])
                 \<or> (es_event_fk inst = NoAction \<and> es_refs \<noteq> [])
         then Inl ConstraintViolation
         else Inr ([], int (length hit),
                   d\<lparr>events := filter (\<lambda>e. event_id e \<noteq> eid) (events d),
                     volunteer_events :=
                       (if ve_event_fk inst = Cascade
                        then filter (\<lambda>r. ve_event_id r \<noteq> eid) (volunteer_events d)
                        else volunteer_events d),
                     event_skills :=
                       (if es_event_fk inst = Cascade
                        then filter (\<lambda>r. es_event_id r \<noteq> eid) (event_skills d)
                        else event_skills d)\<rparr>))"

definition delete_event :: "installation \<Rightarrow> int \<Rightarrow> world \<Rightarrow> event pyval outcome \<times> world" where
  "delete_event inst eid w = execute_query inst (delete_event_stmt inst eid) [SqlInt eid] False w"

text \<open>\<^verbatim>\<open>SELECT name FROM sqlite_master WHERE type='table'\<close>\<close>

definition select_table_names :: "installation \<Rightarrow> pystr statement" where
  "select_table_names inst d = Inr (table_names inst, - 1, d)"

definition expected_tables :: "pystr list" where
  "expected_tables =
     [lit ''VOLUNTEER'', lit ''ORGANISATION'', lit ''SKILL'', lit ''EVENT'',
      lit ''VOLUNTEER_EVENT'', lit ''VOLUNTEER_SKILL'', lit ''EVENT_SKILL'']"

text \<open>
  \<^verbatim>\<open>test_database_connection\<close>: \<^verbatim>\<open>False\<close> without a connection and in its
  \<^verbatim>\<open>except sqlite3.Error\<close> branch, otherwise whether every expected table is listed.
\<close>

definition test_database_connection :: "installation \<Rightarrow> world \<Rightarrow> bool outcome \<times> world" where
  "test_database_connection inst w =
     then_do (get_db_connection inst w) (\<lambda>conn w1.
       case conn of
         None \<Rightarrow> (Returned False, w1)
       | Some c \<Rightarrow>
           (case (case cursor_execute c (select_table_names inst) [] (db w1) of
                    Raised x \<Rightarrow> Raised x
                  | Returned (tables, rowcount, d') \<Rightarrow>
                      (case fetch_fault c of
                         Some f \<Rightarrow> Raised (Sqlite3Error f)
                       | None \<Rightarrow>
                           Returned (list_all (\<lambda>t. t \<in> set tables) expected_tables))) of
              Raised (Sqlite3Error f) \<Rightarrow> (Returned False, w1)
            | Raised x \<Rightarrow> (Raised x, w1)
            | Returned b \<Rightarrow> (Returned b, w1)))"

subsection \<open>Data access: the reporting queries\<close>

text \<open>
  GROUP BY: one group per distinct key, holding the joined rows with that key. A LEFT
  JOIN keeps a left row without a match, paired with \<open>None\<close> (all columns NULL), and
  \<^verbatim>\<open>COUNT(column)\<close> counts the rows where the column is not NULL.
\<close>

definition group_by :: "('a \<Rightarrow> 'k) \<Rightarrow> 'a list \<Rightarrow> ('k \<times> 'a list) list" where
  "group_by key rows = map (\<lambda>k. (k, filter (\<lambda>r. key r = k) rows)) (remdups (map key rows))"

definition left_join :: "('a \<Rightarrow> 'b \<Rightarrow> bool) \<Rightarrow> 'a list \<Rightarrow> 'b list \<Rightarrow> ('a \<times> 'b option) list" where
  "left_join on ls rs =
     concat (map (\<lambda>l. case filter (on l) rs of
                         [] \<Rightarrow> [(l, None)]
                       | ms \<Rightarrow> map (\<lambda>r. (l, Some r)) ms) ls)"

definition count_column :: "('a \<times> 'b option) list \<Rightarrow> int" where
  "count_column rows = int (length (filter (\<lambda>r. snd r \<noteq> None) rows))"

record event_stat =
  stat_event_name :: pystr
  stat_org_name :: pystr
  stat_volunteer_count :: int
  stat_max_volunteers :: int
  stat_start_date :: pystr
  stat_end_date :: pystr
  stat_duration_days :: "int option"
  stat_status :: pystr

text \<open>
  \<^verbatim>\<open>SELECT e.event_name, o.org_name, COUNT(ve.volunteer_id) as volunteer_count, ...,
  CASE WHEN COUNT(ve.volunteer_id) >= e.max_volunteers THEN 'Full'
       WHEN COUNT(ve.volunteer_id) > 0 THEN 'Partial' ELSE 'Empty' END as status
  FROM EVENT e JOIN ORGANISATION o ON e.org_id = o.org_id
  LEFT JOIN VOLUNTEER_EVENT ve ON e.event_id = ve.event_id
  GROUP BY e.event_id, e.event_name, o.org_name, e.max_volunteers, e.start_date, e.end_date
  ORDER BY volunteer_count DESC\<close>
  \<open>event_pairs\<close> is the inner join of EVENT and ORGANISATION, \<open>stat_key\<close> the GROUP BY
  key of a joined pair, and \<open>stat_row\<close> the selected columns of a group, given its key and
  its \<^verbatim>\<open>COUNT(ve.volunteer_id)\<close>.
\<close>

definition event_pairs :: "database \<Rightarrow> (event \<times> organisation) list" where
  "event_pairs d =
     filter (\<lambda>(e, org). event_org_id e = org_id org) (List.product (events d) (organisations d))"

definition stat_key :: "event \<times> organisation \<Rightarrow> int \<times> pystr \<times> pystr \<times> int \<times> pystr \<times> pystr" where
  "stat_key p =
     (event_id (fst p), event_name (fst p), org_name (snd p), max_volunteers (fst p),
      start_date (fst p), end_date (fst p))"

definition stat_row ::
  "installation \<Rightarrow> int \<times> pystr \<times> pystr \<times> int \<times> pystr \<times> pystr \<Rightarrow> int \<Rightarrow> event_stat" where
  "stat_row inst k n =
     (case k of (eid, ename, oname, maxv, sdate, edate) \<Rightarrow>
        \<lparr>stat_event_name = ename, stat_org_name = oname,
         stat_volunteer_count = n,
         stat_max_volunteers = maxv,
         stat_start_date = sdate, stat_end_date = edate,
         stat_duration_days = duration_days inst sdate edate,
         stat_status =
           (if n \<ge> maxv then lit ''Full''
            else if n > 0 then lit ''Partial''
            else lit ''Empty'')\<rparr>)"

definition event_statistics :: "installation \<Rightarrow> event_stat statement" where
  "event_statistics inst d =
     (let joined =
            left_join (\<lambda>p ve. event_id (fst p) = ve_event_id ve) (event_pairs d)
              (volunteer_events d);
          groups = group_by (\<lambda>(p, ve). stat_key p) joined;
          rows = map (\<lambda>(k, g). stat_row inst k (count_column g)) groups
      in Inr (sort_key (\<lambda>r. - stat_volunteer_count r) rows, - 1, d))"

text \<open>The VOLUNTEER_EVENT rows of an event: its registrations.\<close>

definition registrations :: "database \<Rightarrow> int \<Rightarrow> volunteer_event list" where
  "registrations d eid = filter (\<lambda>ve. ve_event_id ve = eid) (volunteer_events d)"

definition get_event_statistics ::
  "installation \<Rightarrow> world \<Rightarrow> event_stat pyval outcome \<times> world" where
  "get_event_statistics inst w = execute_query inst (event_statistics inst) [] True w"

record skill_stat =
  dist_skill_name :: pystr
  dist_skill_category :: pystr
  dist_volunteer_count :: int
  dist_avg_experience :: "real option"
  dist_max_experience :: "int option"
  dist_min_experience :: "int option"

text \<open>AVG, MAX and MIN of a column over a group: NULL when no row has a value.\<close>

definition sql_avg :: "int list \<Rightarrow> real option" where
  "sql_avg ys = (if ys = [] then None else Some (real_of_int (sum_list ys) / real (length ys)))"

definition sql_max :: "int list \<Rightarrow> int option" where
  "sql_max ys = (case ys of [] \<Rightarrow> None | y # ys' \<Rightarrow> Some (fold max ys' y))"

definition sql_min :: "int list \<Rightarrow> int option" where
  "sql_min ys = (case ys of [] \<Rightarrow> None | y # ys' \<Rightarrow> Some (fold min ys' y))"

text \<open>
  \<^verbatim>\<open>SELECT s.skill_name, s.skill_category, COUNT(vs.volunteer_id) as volunteer_count,
  AVG(vs.years_experience), MAX(vs.years_experience), MIN(vs.years_experience)
  FROM SKILL s LEFT JOIN VOLUNTEER_SKILL vs ON s.skill_id = vs.skill_id
  GROUP BY s.skill_id, s.skill_name, s.skill_category
  HAVING COUNT(vs.volunteer_id) > 0
  ORDER BY volunteer_count DESC, s.skill_category\<close>. The average is the exact quotient;
  the engine rounds it to a double.
\<close>

definition skill_distribution :: "skill_stat statement" where
  "skill_distribution d =
     (let joined = left_join (\<lambda>s vs. skill_id s = vs_skill_id vs) (skills d) (volunteer_skills d);
          groups = group_by (\<lambda>(s, vs). (skill_id s, skill_name s, skill_category s)) joined;
          having = filter (\<lambda>(k, g). count_column g > 0) groups;
          rows =
            map (\<lambda>((sid, sname, scat), g).
                   (let years = map years_experience (List.map_filter snd g)
                    in \<lparr>dist_skill_name = sname, dist_skill_category = scat,
                        dist_volunteer_count = count_column g,
                        dist_avg_experience = sql_avg years,
                        dist_max_experience = sql_max years,
                        dist_min_experience = sql_min years\<rparr>)) having
      in Inr (sort_key (\<lambda>r. (- dist_volunteer_count r, dist_skill_category r)) rows, - 1, d))"

definition get_skill_distribution ::
  "installation \<Rightarrow> world \<Rightarrow> skill_stat pyval outcome \<times> world" where
  "get_skill_distribution inst w = execute_query inst skill_distribution [] True w"

subsection \<open>Request handlers\<close>

text \<open>
  A request carries its method and its form fields; \<^verbatim>\<open>request.form.get(k, '')\<close> is the
  field or the empty string. A handler answers with a rendered template (and the values
  it passes to it) or a redirect, after flashing messages, each with a category.
\<close>

datatype http_method = GET | POST

definition form_get :: "(string \<Rightarrow> pystr option) \<Rightarrow> string \<Rightarrow> pystr" where
  "form_get form k = (case form k of None \<Rightarrow> [] | Some v \<Rightarrow> v)"

record volunteer_form =
  form_first_name :: pystr
  form_last_name :: pystr
  form_date_of_birth :: pystr
  form_email :: pystr
  form_phone :: pystr
  form_address :: pystr

datatype endpoint = ViewVolunteers | ViewEvents

datatype page =
    IndexHtml bool nat nat nat
  | NewVolunteerHtml "volunteer_form option"
  | UpdateVolunteerPhoneHtml volunteer "pystr option"

datatype response = RenderTemplate page | Redirect endpoint

type_synonym flash = "pystr \<times> pystr"

type_synonym reply = "response \<times> flash list"

text \<open>\<^verbatim>\<open>len(x) if x else 0\<close>; \<^verbatim>\<open>len\<close> of an integer is a \<^verbatim>\<open>TypeError\<close>.\<close>

definition len_or_zero :: "'r pyval \<Rightarrow> nat outcome" where
  "len_or_zero x =
     (if truthy x
      then (case x of PyList rows \<Rightarrow> Returned (length rows) | _ \<Rightarrow> Raised TypeError)
      else Returned 0)"

text \<open>
  \<^verbatim>\<open>index\<close>: the dashboard. It flashes nothing; the template gets the connection test
  and the three counts.
\<close>

definition index :: "installation \<Rightarrow> world \<Rightarrow> reply outcome \<times> world" where
  "index inst w =
     then_do (test_database_connection inst w) (\<lambda>db_status w1.
     then_do (get_all_volunteers inst w1) (\<lambda>vs w2.
     then_do (get_all_organisations inst w2) (\<lambda>os w3.
     then_do (get_all_events inst w3) (\<lambda>es w4.
       case len_or_zero vs of
         Raised x \<Rightarrow> (Raised x, w4)
       | Returned volunteer_count \<Rightarrow>
           (case len_or_zero os of
              Raised x \<Rightarrow> (Raised x, w4)
            | Returned organisation_count \<Rightarrow>
                (case len_or_zero es of
                   Raised x \<Rightarrow> (Raised x, w4)
                 | Returned event_count \<Rightarrow>
                     (Returned (RenderTemplate
                                  (IndexHtml db_status volunteer_count organisation_count
                                     event_count), []),
                      w4)))))))"

text \<open>
  The validation block of \<^verbatim>\<open>new_volunteer\<close>: the list \<^verbatim>\<open>errors\<close>, in the order the
  source appends to it. \<^verbatim>\<open>datetime.strptime(date_of_birth, '%Y-%m-%d')\<close> is a parameter:
  it gives the day number of the date, or \<open>None\<close> where Python raises
  \<^verbatim>\<open>ValueError\<close>; \<open>today\<close> is the day number of \<^verbatim>\<open>datetime.now().date()\<close>.
\<close>

definition collect_errors ::
  "(pystr \<Rightarrow> int option) \<Rightarrow> int \<Rightarrow> volunteer_form \<Rightarrow> pystr list outcome" where
  "collect_errors strptime today f =
     (case (if form_email f = [] then Returned True
            else (case validate_email (form_email f) of
                    Raised x \<Rightarrow> Raised x
                  | Returned ok \<Rightarrow> Returned (\<not> ok))) of
        Raised x \<Rightarrow> Raised x
      | Returned bad_email \<Rightarrow>
          Returned
            ((if form_first_name f = [] then [lit ''First name is required''] else []) @
             (if form_last_name f = [] then [lit ''Last name is required''] else []) @
             (if form_date_of_birth f = [] then [lit ''Date of birth is required''] else []) @
             (if bad_email then [lit ''Valid email address is required''] else []) @
             (if form_phone f = [] \<or> \<not> validate_phone (form_phone f)
              then [lit ''Valid phone number is required''] else []) @
             (if form_address f = [] then [lit ''Address is required''] else []) @
             (case strptime (form_date_of_birth f) of
                None \<Rightarrow> [lit ''Invalid date format'']
              | Some dob \<Rightarrow>
                  if dob \<ge> today then [lit ''Date of birth must be in the past''] else [])))"

definition new_volunteer ::
  "installation \<Rightarrow> (pystr \<Rightarrow> int option) \<Rightarrow> int \<Rightarrow> http_method \<Rightarrow> (string \<Rightarrow> pystr option)
     \<Rightarrow> world \<Rightarrow> reply outcome \<times> world" where
  "new_volunteer inst strptime today meth form w =
     (if meth = POST then
        (let f = \<lparr>form_first_name = strip (form_get form ''first_name''),
                  form_last_name = strip (form_get form ''last_name''),
                  form_date_of_birth = strip (form_get form ''date_of_birth''),
                  form_email = strip (form_get form ''email''),
                  form_phone = strip (form_get form ''phone''),
                  form_address = strip (form_get form ''address'')\<rparr>
         in case collect_errors strptime today f of
              Raised x \<Rightarrow> (Raised x, w)
            | Returned errors \<Rightarrow>
                if errors \<noteq> [] then
                  (Returned (RenderTemplate (NewVolunteerHtml (Some f)),
                             map (\<lambda>e. (e, lit ''error'')) errors), w)
                else
                  then_do (create_volunteer inst (form_first_name f) (form_last_name f)
                             (form_date_of_birth f) (form_email f) (form_phone f)
                             (form_address f) w
                           :: volunteer pyval outcome \<times> world)
                    (\<lambda>new_id w1.
                       if truthy new_id then
                         (Returned (Redirect ViewVolunteers,
                                    [(lit ''Volunteer '' @ form_first_name f @ lit '' ''
                                        @ form_last_name f @ lit '' created successfully!'',
                                      lit ''success'')]), w1)
                       else
                         (Returned (RenderTemplate (NewVolunteerHtml (Some f)),
                                    [(lit ''Error creating volunteer. Please check your input and try again.'',
                                      lit ''error'')]), w1)))
      else (Returned (RenderTemplate (NewVolunteerHtml None), []), w))"

text \<open>
  \<^verbatim>\<open>rows_affected and rows_affected > 0\<close>; a list cannot be compared with \<open>0\<close>.
\<close>

fun affected :: "'r pyval \<Rightarrow> bool outcome" where
  "affected PyNone = Returned False"
| "affected (PyInt n) = Returned (n \<noteq> 0 \<and> n > 0)"
| "affected (PyList rows) = (if rows = [] then Returned False else Raised TypeError)"

text \<open>
  \<^verbatim>\<open>update_volunteer_contact(volunteer_id)\<close>: the id comes from the route
  \<^verbatim>\<open>/volunteers/<int:volunteer_id>/update_phone\<close>, whose converter accepts any
  sequence of digits, so it is a natural number of any size.
\<close>

definition update_volunteer_contact ::
  "installation \<Rightarrow> http_method \<Rightarrow> (string \<Rightarrow> pystr option) \<Rightarrow> int \<Rightarrow> world
     \<Rightarrow> reply outcome \<times> world" where
  "update_volunteer_contact inst meth form vid w =
     then_do (get_volunteer_by_id inst vid w) (\<lambda>found w1.
       case found of
         None \<Rightarrow>
           (Returned (Redirect ViewVolunteers, [(lit ''Volunteer not found'', lit ''error'')]), w1)
       | Some v \<Rightarrow>
           if meth = POST then
             (let new_phone = strip (form_get form ''phone'')
              in if new_phone = [] then
                   (Returned (RenderTemplate (UpdateVolunteerPhoneHtml v (Some new_phone)),
                              [(lit ''Phone number is required'', lit ''error'')]), w1)
                 else if \<not> validate_phone new_phone then
                   (Returned (RenderTemplate (UpdateVolunteerPhoneHtml v (Some new_phone)),
                              [(lit ''Please enter a valid phone number'', lit ''error'')]), w1)
                 else
                   then_do (update_volunteer_phone inst vid new_phone w1) (\<lambda>rows_affected w2.
                     case affected rows_affected of
                       Raised x \<Rightarrow> (Raised x, w2)
                     | Returned True \<Rightarrow>
                         (Returned (Redirect ViewVolunteers,
                                    [(lit ''Phone number updated successfully for ''
                                        @ first_name v @ lit '' '' @ last_name v,
                                      lit ''success'')]), w2)
                     | Returned False \<Rightarrow>
                         (Returned (RenderTemplate (UpdateVolunteerPhoneHtml v (Some new_phone)),
                                    [(lit ''Error updating phone number. Please try again.'',
                                      lit ''error'')]), w2)))
           else (Returned (RenderTemplate (UpdateVolunteerPhoneHtml v None), []), w1))"

subsection \<open>Example data\<close>

text \<open>
  A connection that meets no fault, an installation around it, and a small database. The
  installation computes the days between the two dates the events below use, by their
  day numbers.
\<close>

definition calm :: conditions where
  "calm = \<lparr>connect_fault = None, prepare_fault = None, step_fault = None, fetch_fault = None,
            commit_fault = None, length_limit = 1000000000,
            current_timestamp = lit ''2025-06-01 09:00:00''\<rparr>"

definition demo_day :: "pystr \<Rightarrow> int option" where
  "demo_day s =
     (if s = lit ''2025-07-01'' then Some 739433
      else if s = lit ''2025-07-02'' then Some 739434
      else None)"

definition demo_inst :: "fk_action \<Rightarrow> (nat \<Rightarrow> conditions) \<Rightarrow> installation" where
  "demo_inst fk weather =
     \<lparr>table_names = expected_tables, ve_event_fk = fk, es_event_fk = fk,
      volunteer_constraints = (\<lambda>row rows. True),
      new_volunteer_id = (\<lambda>rows. 1 + int (length rows)),
      duration_days =
        (\<lambda>s e. case (demo_day s, demo_day e) of
                  (Some a, Some b) \<Rightarrow> Some (b - a)
                | _ \<Rightarrow> None),
      conditions_at = weather\<rparr>"

definition mk_volunteer :: "int \<Rightarrow> string \<Rightarrow> string \<Rightarrow> volunteer" where
  "mk_volunteer i fname lname =
     \<lparr>volunteer_id = i, first_name = lit fname, last_name = lit lname,
      date_of_birth = lit ''1990-01-01'', email = lit ''a@b.com'', phone = lit ''0412345678'',
      address = lit ''1 Main St'', registration_date = lit ''2025-01-01''\<rparr>"

definition mk_organisation :: "int \<Rightarrow> string \<Rightarrow> organisation" where
  "mk_organisation i name =
     \<lparr>org_id = i, org_name = lit name, contact_email = lit ''o@o.org'', org_phone = lit ''0298765432'',
      org_address = lit ''2 High St'', org_type = lit ''Charity'', org_description = []\<rparr>"

definition mk_event :: "int \<Rightarrow> string \<Rightarrow> int \<Rightarrow> int \<Rightarrow> event" where
  "mk_event i name maxv org =
     \<lparr>event_id = i, event_name = lit name, event_description = [],
      start_date = lit ''2025-07-01'', end_date = lit ''2025-07-02'', location = lit ''Hall'',
      max_volunteers = maxv, event_org_id = org\<rparr>"

definition mk_registration :: "int \<Rightarrow> int \<Rightarrow> volunteer_event" where
  "mk_registration v e =
     \<lparr>ve_volunteer_id = v, ve_event_id = e, ve_registration_date = lit ''2025-06-01'',
      attendance_status = lit ''Registered''\<rparr>"

definition empty_db :: database where
  "empty_db = \<lparr>volunteers = [], organisations = [], skills = [], events = [],
               volunteer_events = [], volunteer_skills = [], event_skills = []\<rparr>"

definition demo_db :: database where
  "demo_db = empty_db
     \<lparr>volunteers := [mk_volunteer 1 ''Zoe'' ''Young'', mk_volunteer 2 ''Bob'' ''Adams'',
                     mk_volunteer 3 ''Al'' ''Adams''],
      organisations := [mk_organisation 1 ''Shelter''],
      events := [mk_event 1 ''Cleanup'' 2 1],
      volunteer_events := [mk_registration 1 1]\<rparr>"

text \<open>Events of capacity 2 with two, no and one registration; an event of capacity 0.\<close>

definition stats_db :: database where
  "stats_db = demo_db
     \<lparr>events := [mk_event 1 ''Cleanup'' 2 1, mk_event 2 ''Picnic'' 2 1, mk_event 3 ''Fair'' 2 1],
      volunteer_events := [mk_registration 1 1, mk_registration 2 1, mk_registration 1 3]\<rparr>"

definition briefing_db :: database where
  "briefing_db = demo_db\<lparr>events := [mk_event 1 ''Briefing'' 0 1], volunteer_events := []\<rparr>"

definition mk_stat :: "string \<Rightarrow> int \<Rightarrow> int \<Rightarrow> string \<Rightarrow> event_stat" where
  "mk_stat name n maxv status =
     \<lparr>stat_event_name = lit name, stat_org_name = lit ''Shelter'', stat_volunteer_count = n,
      stat_max_volunteers = maxv, stat_start_date = lit ''2025-07-01'',
      stat_end_date = lit ''2025-07-02'', stat_duration_days = Some 1, stat_status = lit status\<rparr>"

text \<open>Three skills, one of them held by nobody.\<close>

definition mk_skill :: "int \<Rightarrow> string \<Rightarrow> string \<Rightarrow> skill" where
  "mk_skill i name category =
     \<lparr>skill_id = i, skill_name = lit name, skill_description = [], skill_category = lit category\<rparr>"

definition mk_volunteer_skill :: "int \<Rightarrow> int \<Rightarrow> int \<Rightarrow> volunteer_skill" where
  "mk_volunteer_skill v s years =
     \<lparr>vs_volunteer_id = v, vs_skill_id = s, proficiency_level = lit ''Advanced'',
      years_experience = years\<rparr>"

definition skills_db :: database where
  "skills_db = demo_db
     \<lparr>skills := [mk_skill 1 ''First Aid'' ''Health'', mk_skill 2 ''Cooking'' ''Food'',
                 mk_skill 3 ''Driving'' ''Transport''],
      volunteer_skills := [mk_volunteer_skill 1 3 4, mk_volunteer_skill 1 1 2,
                           mk_volunteer_skill 2 1 6]\<rparr>"

definition mk_dist :: "string \<Rightarrow> string \<Rightarrow> int \<Rightarrow> real \<Rightarrow> int \<Rightarrow> int \<Rightarrow> skill_stat" where
  "mk_dist name category n avg mx mn =
     \<lparr>dist_skill_name = lit name, dist_skill_category = lit category, dist_volunteer_count = n,
      dist_avg_experience = Some avg, dist_max_experience = Some mx,
      dist_min_experience = Some mn\<rparr>"

text \<open>A date parser that knows three dates by their day numbers, and a submitted form.\<close>

definition demo_strptime :: "pystr \<Rightarrow> int option" where
  "demo_strptime s =
     (if s = lit ''1990-01-01'' then Some 726468
      else if s = lit ''2025-06-01'' then Some 739403
      else if s = lit ''2025-06-02'' then Some 739404
      else None)"

definition demo_form :: "string \<Rightarrow> pystr option" where
  "demo_form =
     [''first_name'' \<mapsto> lit ''Ann'', ''last_name'' \<mapsto> lit ''Lee'',
      ''date_of_birth'' \<mapsto> lit ''2025-06-02'', ''email'' \<mapsto> lit ''ann@lee.org'',
      ''phone'' \<mapsto> lit ''0412 345 678'', ''address'' \<mapsto> lit '' 3 Low Rd '']"

definition demo_fields :: volunteer_form where
  "demo_fields =
     \<lparr>form_first_name = lit ''Ann'', form_last_name = lit ''Lee'',
      form_date_of_birth = lit ''2025-06-02'', form_email = lit ''ann@lee.org'',
      form_phone = lit ''0412 345 678'', form_address = lit ''3 Low Rd''\<rparr>"

section \<open>Properties\<close>

subsection \<open>Validation utilities\<close>

lemma split_on_nonempty: "split_on sep s \<noteq> []"
  by (induction s) (auto split: list.splits)

lemma split_on_no_sep: "sep \<notin> set t \<Longrightarrow> split_on sep t = [t]"
  by (induction t) auto

lemma split_on_append: "split_on sep (p @ sep # t) = split_on sep p @ split_on sep t"
proof (induction p)
  case Nil
  show ?case by simp
next
  case (Cons c p)
  obtain w ws where w: "split_on sep p = w # ws"
    using split_on_nonempty [of sep p] by (cases "split_on sep p") auto
  show ?case using Cons w by simp
qed

lemma last_split_on:
  assumes "sep \<notin> set t"
  shows "last (split_on sep (p @ sep # t)) = t"
  using assms by (simp add: split_on_append split_on_no_sep split_on_nonempty)

lemma validate_email_after_last_at:
  "validate_email s =
     Returned (\<exists>p t. s = p @ cp CHR ''@'' # t \<and> cp CHR ''@'' \<notin> set t \<and> cp CHR ''.'' \<in> set t)"
proof (cases "cp CHR ''@'' \<in> set s")
  case False
  then have "\<not> (\<exists>p t. s = p @ cp CHR ''@'' # t \<and> cp CHR ''@'' \<notin> set t \<and> cp CHR ''.'' \<in> set t)"
    by auto
  with False show ?thesis by (simp add: validate_email_def)
next
  case True
  then obtain p t where s: "s = p @ cp CHR ''@'' # t" and t: "cp CHR ''@'' \<notin> set t"
    using split_list_last by fastforce
  have uniq: "t' = t" if "s = p' @ cp CHR ''@'' # t'" "cp CHR ''@'' \<notin> set t'" for p' t'
    using last_split_on [OF t, of p] last_split_on [OF that(2), of p'] s that(1) by simp
  have "(\<exists>p t. s = p @ cp CHR ''@'' # t \<and> cp CHR ''@'' \<notin> set t \<and> cp CHR ''.'' \<in> set t)
          = (cp CHR ''.'' \<in> set t)"
    using s t uniq by blast
  moreover have "validate_email s = Returned (cp CHR ''.'' \<in> set t)"
    using True last_split_on [OF t, of p] s
    by (simp add: validate_email_def index_neg1_def split_on_nonempty)
  ultimately show ?thesis by simp
qed

text \<open>
  C6. For every string \<open>s\<close>, \<open>validate_email s\<close> returns (it never raises), and it returns
  true exactly when \<open>s\<close> contains \<open>@\<close> and the substring after the last \<open>@\<close> contains a
  dot: \<open>s\<close> is \<open>p @ t\<close> with no \<open>@\<close> in \<open>t\<close> and a dot in \<open>t\<close>. In particular it is true
  of \<^verbatim>\<open>a@b.com\<close> and false of \<^verbatim>\<open>abc\<close> and of \<^verbatim>\<open>a@b\<close>.
\<close>

theorem validate_email_correct:
  "validate_email s =
     Returned (\<exists>p t. s = p @ cp CHR ''@'' # t \<and> cp CHR ''@'' \<notin> set t \<and> cp CHR ''.'' \<in> set t)
   \<and> validate_email (lit ''a@b.com'') = Returned True
   \<and> validate_email (lit ''abc'') = Returned False
   \<and> validate_email (lit ''a@b'') = Returned False"
proof -
  have "validate_email (lit ''a@b.com'') = Returned True"
    by (simp add: validate_email_def index_neg1_def lit_def cp_def)
  moreover have "validate_email (lit ''abc'') = Returned False"
    by (simp add: validate_email_def index_neg1_def lit_def cp_def)
  moreover have "validate_email (lit ''a@b'') = Returned False"
    by (simp add: validate_email_def index_neg1_def lit_def cp_def)
  ultimately show ?thesis
    using validate_email_after_last_at [of s] by simp
qed

lemma replace_chain:
  "replace_char a (replace_char b (replace_char c (replace_char d s)))
     = filter (\<lambda>x. x \<noteq> d \<and> x \<noteq> c \<and> x \<noteq> b \<and> x \<noteq> a) s"
  by (simp add: replace_char_def conj_commute conj_left_commute)

lemma validate_phone_filter:
  "validate_phone s =
     (let r = filter (\<lambda>c. c \<noteq> cp CHR ''-'' \<and> c \<noteq> cp CHR '' '' \<and> c \<noteq> cp CHR ''(''
                            \<and> c \<noteq> cp CHR '')'') s
      in r \<noteq> [] \<and> list_all char_isdigit r \<and> 10 \<le> length r)"
  by (simp add: validate_phone_def replace_chain isdigit_def Let_def)

lemma char_isdigit_ascii: "c < 128 \<Longrightarrow> char_isdigit c = (48 \<le> c \<and> c \<le> 57)"
  by (auto simp: char_isdigit_def isdigit_ranges_def)

lemma list_all_isdigit_ascii:
  "list_all (\<lambda>c. c < 128) r \<Longrightarrow> list_all char_isdigit r = list_all (\<lambda>c. 48 \<le> c \<and> c \<le> 57) r"
  by (induction r) (auto simp: char_isdigit_ascii)

lemmas phone_eval =
  validate_phone_def replace_char_def isdigit_def char_isdigit_def isdigit_ranges_def
  lit_def cp_def

text \<open>
  C2, as stated, fails: ten times the superscript two (U+00B2) is accepted by
  \<^verbatim>\<open>str.isdigit\<close>, hence by \<open>validate_phone\<close>, and holds no decimal digit.
\<close>

theorem validate_phone_superscript_counterexample:
  "validate_phone [178, 178, 178, 178, 178, 178, 178, 178, 178, 178]
   \<and> \<not> phone_rule_as_stated [178, 178, 178, 178, 178, 178, 178, 178, 178, 178]"
  by (simp add: phone_eval phone_rule_as_stated_def)

text \<open>
  C2, amended. For every string \<open>s\<close>, \<open>validate_phone s\<close> is true exactly when the string
  obtained by deleting every \<open>-\<close>, space, \<open>(\<close> and \<open>)\<close> from \<open>s\<close> is non-empty, consists
  only of characters that \<^verbatim>\<open>str.isdigit\<close> accepts, and has length at least 10. On a
  string of ASCII characters that is the rule as stated, with the decimal digits \<open>0\<close> to
  \<open>9\<close>. In particular \<^verbatim>\<open>0412-345-678\<close> is accepted, \<^verbatim>\<open>12345\<close> and
  \<^verbatim>\<open>04-12-AB-CD\<close> are not.
\<close>

theorem validate_phone_correct:
  "validate_phone s =
     (let r = filter (\<lambda>c. c \<noteq> cp CHR ''-'' \<and> c \<noteq> cp CHR '' '' \<and> c \<noteq> cp CHR ''(''
                            \<and> c \<noteq> cp CHR '')'') s
      in r \<noteq> [] \<and> list_all char_isdigit r \<and> 10 \<le> length r)
   \<and> (list_all (\<lambda>c. c < 128) s \<longrightarrow> validate_phone s = phone_rule_as_stated s)
   \<and> validate_phone (lit ''0412-345-678'')
   \<and> \<not> validate_phone (lit ''12345'')
   \<and> \<not> validate_phone (lit ''04-12-AB-CD'')"
proof -
  have ascii: "validate_phone s = phone_rule_as_stated s" if "list_all (\<lambda>c. c < 128) s"
  proof -
    let ?r = "filter (\<lambda>c. c \<noteq> cp CHR ''-'' \<and> c \<noteq> cp CHR '' '' \<and> c \<noteq> cp CHR ''(''
                            \<and> c \<noteq> cp CHR '')'') s"
    have "list_all (\<lambda>c. c < 128) ?r"
      using that by (simp add: list_all_iff)
    then have "list_all char_isdigit ?r = list_all (\<lambda>c. cp CHR ''0'' \<le> c \<and> c \<le> cp CHR ''9'') ?r"
      using list_all_isdigit_ascii [of ?r] by (simp add: cp_def)
    then show ?thesis
      by (simp add: validate_phone_filter phone_rule_as_stated_def Let_def)
  qed
  have "validate_phone (lit ''0412-345-678'')"
    by (simp add: phone_eval)
  moreover have "\<not> validate_phone (lit ''12345'')"
    by (simp add: phone_eval)
  moreover have "\<not> validate_phone (lit ''04-12-AB-CD'')"
    by (simp add: phone_eval)
  ultimately show ?thesis
    using validate_phone_filter [of s] ascii by blast
qed

text \<open>
  The amended rule at \<^verbatim>\<open>(04) 1234 5678\<close>, an ASCII string: accepted by the code and by
  the rule as stated.
\<close>

theorem validate_phone_correct_witness:
  "list_all (\<lambda>c. c < 128) (lit ''(04) 1234 5678'')
   \<and> validate_phone (lit ''(04) 1234 5678'')
   \<and> phone_rule_as_stated (lit ''(04) 1234 5678'')"
proof -
  have a: "list_all (\<lambda>c. c < 128) (lit ''(04) 1234 5678'')"
    by (simp add: lit_def cp_def)
  have b: "phone_rule_as_stated (lit ''(04) 1234 5678'')"
    by (simp add: phone_eval phone_rule_as_stated_def)
  show ?thesis
    using validate_phone_correct [of "lit ''(04) 1234 5678''"] a b by blast
qed

subsection \<open>Storage faults\<close>

lemma get_db_connection_eq:
  "get_db_connection inst w =
     (Returned (if connect_fault (conditions_at inst (opened w)) = None
                then Some (conditions_at inst (opened w)) else None),
      w\<lparr>opened := Suc (opened w)\<rparr>)"
  by (simp add: get_db_connection_def Let_def split: option.splits)

lemma execute_query_eq:
  "execute_query inst stmt params fetch w =
     (let c = conditions_at inst (opened w); w' = w\<lparr>opened := Suc (opened w)\<rparr>
      in if connect_fault c \<noteq> None \<or> prepare_fault c \<noteq> None then (Returned PyNone, w')
         else (case bind_parameters c params of
                 Some (Sqlite3Error f) \<Rightarrow> (Returned PyNone, w')
               | Some x \<Rightarrow> (Raised x, w')
               | None \<Rightarrow>
                   if step_fault c \<noteq> None then (Returned PyNone, w')
                   else (case stmt (db w) of
                           Inl f \<Rightarrow> (Returned PyNone, w')
                         | Inr (rows, rowcount, d') \<Rightarrow>
                             if fetch then (if fetch_fault c \<noteq> None then (Returned PyNone, w')
                                            else (Returned (PyList rows), w'))
                             else (if commit_fault c \<noteq> None then (Returned PyNone, w')
                                   else (Returned (PyInt rowcount), w'\<lparr>db := d'\<rparr>)))))"
  by (auto simp: execute_query_def get_db_connection_eq then_do_def query_body_def
        cursor_execute_def Let_def split: option.splits sum.splits py_exception.splits)

lemmas demo_defs = calm_def demo_day_def demo_inst_def mk_volunteer_def mk_organisation_def mk_event_def
  mk_registration_def empty_db_def demo_db_def lit_def cp_def

lemma create_volunteer_eq:
  "(create_volunteer inst a b c d e g w :: 'r pyval outcome \<times> world) =
     (let k = conditions_at inst (opened w); w' = w\<lparr>opened := Suc (opened w)\<rparr>
      in if connect_fault k \<noteq> None \<or> prepare_fault k \<noteq> None then (Returned PyNone, w')
         else (case bind_parameters k [SqlText a, SqlText b, SqlText c, SqlText d, SqlText e,
                                       SqlText g] of
                 Some (Sqlite3Error f) \<Rightarrow> (Returned PyNone, w')
               | Some x \<Rightarrow> (Raised x, w')
               | None \<Rightarrow>
                   if step_fault k \<noteq> None then (Returned PyNone, w')
                   else (case (insert_volunteer inst k a b c d e g :: volunteer statement) (db w) of
                           Inl f \<Rightarrow> (Returned PyNone, w')
                         | Inr (rows, rowcount, d') \<Rightarrow>
                             if commit_fault k \<noteq> None then (Returned PyNone, w')
                             else (Returned (PyInt (new_volunteer_id inst (volunteers (db w)))),
                                   w'\<lparr>db := d'\<rparr>))))"
  unfolding create_volunteer_def get_db_connection_eq then_do_def cursor_execute_def Let_def
  by (cases "bind_parameters (conditions_at inst (opened w))
               [SqlText a, SqlText b, SqlText c, SqlText d, SqlText e, SqlText g]")
     (auto simp del: bind_parameters.simps split: option.splits sum.splits py_exception.splits)

lemma test_database_connection_eq:
  "test_database_connection inst w =
     (let k = conditions_at inst (opened w); w' = w\<lparr>opened := Suc (opened w)\<rparr>
      in if connect_fault k \<noteq> None \<or> prepare_fault k \<noteq> None \<or> step_fault k \<noteq> None
            \<or> fetch_fault k \<noteq> None
         then (Returned False, w')
         else (Returned (list_all (\<lambda>t. t \<in> set (table_names inst)) expected_tables), w'))"
  by (auto simp: test_database_connection_def get_db_connection_eq then_do_def
        cursor_execute_def select_table_names_def Let_def split: option.splits sum.splits)

text \<open>
  C8, amended. No data access operation lets a \<^verbatim>\<open>sqlite3.Error\<close> reach its caller.
  \<open>execute_query\<close>, and with it every operation that is a call of it, returns \<^verbatim>\<open>None\<close>
  and leaves the tables as they were when the connection fails, when the statement cannot
  be prepared, when the engine refuses a parameter as too long, and, once its parameters
  are bound, when running it, a constraint, \<^verbatim>\<open>fetchall\<close> or \<^verbatim>\<open>commit\<close> fails; so
  does \<open>create_volunteer\<close>. \<open>test_database_connection\<close> catches the fault as well, but
  returns \<^verbatim>\<open>False\<close>. (A parameter that cannot be handed to the engine at all raises
  \<^verbatim>\<open>OverflowError\<close> or \<^verbatim>\<open>UnicodeEncodeError\<close> before the statement runs; that is no
  storage fault, and the statement never meets one.)
\<close>

theorem storage_faults_become_sentinels:
  fixes stmt :: "'r statement"
  shows
  "(\<forall>f. fst (execute_query inst stmt params fetch w) \<noteq> Raised (Sqlite3Error f))
   \<and> (\<forall>f. fst (create_volunteer inst a b c d e g w :: 'r pyval outcome \<times> world)
            \<noteq> Raised (Sqlite3Error f))
   \<and> (\<forall>f. fst (test_database_connection inst w) \<noteq> Raised (Sqlite3Error f))
   \<and> (let k = conditions_at inst (opened w); w' = w\<lparr>opened := Suc (opened w)\<rparr>
      in (connect_fault k \<noteq> None \<or> prepare_fault k \<noteq> None
            \<or> (\<exists>f. bind_parameters k params = Some (Sqlite3Error f))
            \<or> (bind_parameters k params = None
                 \<and> (step_fault k \<noteq> None \<or> (\<exists>f. stmt (db w) = Inl f)
                      \<or> (fetch \<and> fetch_fault k \<noteq> None) \<or> (\<not> fetch \<and> commit_fault k \<noteq> None)))
          \<longrightarrow> execute_query inst stmt params fetch w = (Returned PyNone, w'))
       \<and> (connect_fault k \<noteq> None \<or> prepare_fault k \<noteq> None
            \<or> (\<exists>f. bind_parameters k [SqlText a, SqlText b, SqlText c, SqlText d, SqlText e,
                                         SqlText g] = Some (Sqlite3Error f))
            \<or> (bind_parameters k [SqlText a, SqlText b, SqlText c, SqlText d, SqlText e,
                                    SqlText g] = None
                 \<and> (step_fault k \<noteq> None
                      \<or> (\<exists>f. (insert_volunteer inst k a b c d e g :: volunteer statement) (db w)
                                = Inl f)
                      \<or> commit_fault k \<noteq> None))
          \<longrightarrow> (create_volunteer inst a b c d e g w :: 'r pyval outcome \<times> world)
                = (Returned PyNone, w'))
       \<and> (connect_fault k \<noteq> None \<or> prepare_fault k \<noteq> None \<or> step_fault k \<noteq> None
            \<or> fetch_fault k \<noteq> None
          \<longrightarrow> test_database_connection inst w = (Returned False, w')))"
proof -
  let ?k = "conditions_at inst (opened w)"
  let ?ps = "[SqlText a, SqlText b, SqlText c, SqlText d, SqlText e, SqlText g]"
  have 1: "fst (execute_query inst stmt params fetch w) \<noteq> Raised (Sqlite3Error f)" for f
    by (cases "bind_parameters ?k params")
       (auto simp: execute_query_eq Let_def split: sum.splits py_exception.splits)
  have 2: "fst (create_volunteer inst a b c d e g w :: 'r pyval outcome \<times> world)
             \<noteq> Raised (Sqlite3Error f)" for f
    by (cases "bind_parameters ?k ?ps")
       (auto simp: create_volunteer_eq Let_def simp del: bind_parameters.simps
          split: sum.splits py_exception.splits)
  have 3: "fst (test_database_connection inst w) \<noteq> Raised (Sqlite3Error f)" for f
    by (auto simp: test_database_connection_eq Let_def)
  have 4: "execute_query inst stmt params fetch w = (Returned PyNone, w\<lparr>opened := Suc (opened w)\<rparr>)"
    if "connect_fault ?k \<noteq> None \<or> prepare_fault ?k \<noteq> None
        \<or> (\<exists>f. bind_parameters ?k params = Some (Sqlite3Error f))
        \<or> (bind_parameters ?k params = None
             \<and> (step_fault ?k \<noteq> None \<or> (\<exists>f. stmt (db w) = Inl f)
                  \<or> (fetch \<and> fetch_fault ?k \<noteq> None)
                  \<or> (\<not> fetch \<and> commit_fault ?k \<noteq> None)))"
    using that by (auto simp: execute_query_eq Let_def split: sum.splits)
  have 5: "(create_volunteer inst a b c d e g w :: 'r pyval outcome \<times> world)
             = (Returned PyNone, w\<lparr>opened := Suc (opened w)\<rparr>)"
    if "connect_fault ?k \<noteq> None \<or> prepare_fault ?k \<noteq> None
        \<or> (\<exists>f. bind_parameters ?k ?ps = Some (Sqlite3Error f))
        \<or> (bind_parameters ?k ?ps = None
             \<and> (step_fault ?k \<noteq> None
                  \<or> (\<exists>f. (insert_volunteer inst ?k a b c d e g :: volunteer statement) (db w)
                            = Inl f)
                  \<or> commit_fault ?k \<noteq> None))"
    using that
    by (auto simp: create_volunteer_eq Let_def simp del: bind_parameters.simps split: sum.splits)
  have 6: "test_database_connection inst w = (Returned False, w\<lparr>opened := Suc (opened w)\<rparr>)"
    if "connect_fault ?k \<noteq> None \<or> prepare_fault ?k \<noteq> None \<or> step_fault ?k \<noteq> None
        \<or> fetch_fault ?k \<noteq> None"
    using that by (auto simp: test_database_connection_eq Let_def)
  show ?thesis
    unfolding Let_def using 1 2 3 4 5 6 by blast
qed

text \<open>
  C8, as stated, fails for \<open>test_database_connection\<close>: when the connection cannot be
  opened it returns \<^verbatim>\<open>False\<close>, not \<^verbatim>\<open>None\<close>.
\<close>

theorem test_connection_counterexample:
  "test_database_connection
     (demo_inst NoAction (\<lambda>k. calm\<lparr>connect_fault := Some ConnectionFailure\<rparr>))
     \<lparr>db = demo_db, opened = 0\<rparr>
   = (Returned False, \<lparr>db = demo_db, opened = 1\<rparr>)"
  by (simp add: test_database_connection_eq calm_def demo_inst_def)

text \<open>
  The amended claim at two faults: deleting an event that a registration refers to, under
  NO ACTION, violates the foreign key, and listing the volunteers with no connection;
  both return \<^verbatim>\<open>None\<close> and change nothing.
\<close>

theorem storage_faults_witness:
  "delete_event (demo_inst NoAction (\<lambda>k. calm)) 1 \<lparr>db = demo_db, opened = 0\<rparr>
     = (Returned PyNone, \<lparr>db = demo_db, opened = 1\<rparr>)
   \<and> get_all_volunteers (demo_inst NoAction (\<lambda>k. calm\<lparr>connect_fault := Some ConnectionFailure\<rparr>))
       \<lparr>db = demo_db, opened = 0\<rparr>
     = (Returned PyNone, \<lparr>db = demo_db, opened = 1\<rparr>)"
proof -
  let ?I = "demo_inst NoAction (\<lambda>k. calm)"
  let ?J = "demo_inst NoAction (\<lambda>k. calm\<lparr>connect_fault := Some ConnectionFailure\<rparr>)"
  let ?W = "\<lparr>db = demo_db, opened = 0\<rparr>"
  have a: "\<exists>f. (delete_event_stmt ?I 1 :: event statement) demo_db = Inl f"
    by (simp add: delete_event_stmt_def demo_defs)
  have b: "connect_fault (conditions_at ?J 0) \<noteq> None"
    by (simp add: demo_inst_def)
  have "execute_query ?I (delete_event_stmt ?I 1 :: event statement) [SqlInt 1] False ?W
          = (Returned PyNone, ?W\<lparr>opened := Suc (opened ?W)\<rparr>)"
    using storage_faults_become_sentinels
            [of ?I "delete_event_stmt ?I 1 :: event statement" "[SqlInt 1]" False ?W] a
    by (simp add: Let_def)
  moreover have "execute_query ?J select_all_volunteers [] True ?W
          = (Returned PyNone, ?W\<lparr>opened := Suc (opened ?W)\<rparr>)"
    using storage_faults_become_sentinels [of ?J select_all_volunteers "[]" True ?W] b
    by (simp add: Let_def)
  ultimately show ?thesis
    by (simp add: delete_event_def get_all_volunteers_def)
qed

subsection \<open>Listing the volunteers\<close>

lemma get_all_volunteers_eq:
  "get_all_volunteers inst w =
     (let k = conditions_at inst (opened w); w' = w\<lparr>opened := Suc (opened w)\<rparr>
      in if connect_fault k \<noteq> None \<or> prepare_fault k \<noteq> None \<or> step_fault k \<noteq> None
            \<or> fetch_fault k \<noteq> None
         then (Returned PyNone, w')
         else (Returned (PyList (sort_key (\<lambda>v. (last_name v, first_name v)) (volunteers (db w)))), w'))"
  by (simp add: get_all_volunteers_def execute_query_eq select_all_volunteers_def Let_def)

text \<open>
  C9. For every database state \<open>get_all_volunteers\<close> returns, without raising and without
  changing the tables, \<^verbatim>\<open>None\<close> or a sequence. A sequence it returns holds exactly the
  VOLUNTEER rows and is sorted ascending by the key (last_name, first_name); a second call
  on the state the first one leaves returns, when it returns a sequence, the same
  sequence. When the connection meets no fault, a sequence is returned.
\<close>

theorem get_all_volunteers_sorted:
  "(\<exists>v w'. get_all_volunteers inst w = (Returned v, w') \<and> db w' = db w
            \<and> (v = PyNone \<or> (\<exists>rows. v = PyList rows)))
   \<and> (get_all_volunteers inst w = (Returned (PyList rows), w')
        \<longrightarrow> sorted (map (\<lambda>v. (last_name v, first_name v)) rows)
            \<and> set rows = set (volunteers (db w)) \<and> length rows = length (volunteers (db w))
            \<and> (\<forall>rows' w''. get_all_volunteers inst w' = (Returned (PyList rows'), w'')
                  \<longrightarrow> rows' = rows))
   \<and> (connect_fault (conditions_at inst (opened w)) = None
        \<and> prepare_fault (conditions_at inst (opened w)) = None
        \<and> step_fault (conditions_at inst (opened w)) = None
        \<and> fetch_fault (conditions_at inst (opened w)) = None
        \<longrightarrow> (\<exists>rows w'. get_all_volunteers inst w = (Returned (PyList rows), w')))"
proof -
  have a: "\<exists>v w'. get_all_volunteers inst w = (Returned v, w') \<and> db w' = db w
            \<and> (v = PyNone \<or> (\<exists>rows. v = PyList rows))"
    by (simp add: get_all_volunteers_eq Let_def)
  have b: "sorted (map (\<lambda>v. (last_name v, first_name v)) rows)
            \<and> set rows = set (volunteers (db w)) \<and> length rows = length (volunteers (db w))
            \<and> (\<forall>rows' w''. get_all_volunteers inst w' = (Returned (PyList rows'), w'')
                  \<longrightarrow> rows' = rows)"
    if h: "get_all_volunteers inst w = (Returned (PyList rows), w')"
  proof -
    from h have r: "rows = sort_key (\<lambda>v. (last_name v, first_name v)) (volunteers (db w))"
      and d: "db w' = db w"
      by (auto simp: get_all_volunteers_eq Let_def split: if_splits)
    have "rows' = rows" if "get_all_volunteers inst w' = (Returned (PyList rows'), w'')" for rows' w''
      using that r d by (auto simp: get_all_volunteers_eq Let_def split: if_splits)
    then show ?thesis using r by simp
  qed
  have c: "\<exists>rows w'. get_all_volunteers inst w = (Returned (PyList rows), w')"
    if "connect_fault (conditions_at inst (opened w)) = None
        \<and> prepare_fault (conditions_at inst (opened w)) = None
        \<and> step_fault (conditions_at inst (opened w)) = None
        \<and> fetch_fault (conditions_at inst (opened w)) = None"
    using that by (simp add: get_all_volunteers_eq Let_def)
  show ?thesis using a b c by blast
qed

text \<open>
  The listing of three volunteers stored as Young Zoe, Adams Bob, Adams Al: Adams Al,
  Adams Bob, Young Zoe.
\<close>

theorem get_all_volunteers_witness:
  "get_all_volunteers (demo_inst NoAction (\<lambda>k. calm)) \<lparr>db = demo_db, opened = 0\<rparr>
     = (Returned (PyList [mk_volunteer 3 ''Al'' ''Adams'', mk_volunteer 2 ''Bob'' ''Adams'',
                          mk_volunteer 1 ''Zoe'' ''Young'']),
        \<lparr>db = demo_db, opened = 1\<rparr>)
   \<and> sorted (map (\<lambda>v. (last_name v, first_name v))
        [mk_volunteer 3 ''Al'' ''Adams'', mk_volunteer 2 ''Bob'' ''Adams'',
         mk_volunteer 1 ''Zoe'' ''Young''])"
proof -
  have e: "get_all_volunteers (demo_inst NoAction (\<lambda>k. calm)) \<lparr>db = demo_db, opened = 0\<rparr>
     = (Returned (PyList [mk_volunteer 3 ''Al'' ''Adams'', mk_volunteer 2 ''Bob'' ''Adams'',
                          mk_volunteer 1 ''Zoe'' ''Young'']),
        \<lparr>db = demo_db, opened = 1\<rparr>)"
    by (simp add: get_all_volunteers_eq Let_def demo_defs)
  show ?thesis
    using get_all_volunteers_sorted [of "demo_inst NoAction (\<lambda>k. calm)" "\<lparr>db = demo_db, opened = 0\<rparr>"
              "[mk_volunteer 3 ''Al'' ''Adams'', mk_volunteer 2 ''Bob'' ''Adams'',
                mk_volunteer 1 ''Zoe'' ''Young'']" "\<lparr>db = demo_db, opened = 1\<rparr>"] e
    by blast
qed

subsection \<open>The dashboard\<close>

lemma fetch_query_cases:
  assumes "\<And>d. \<exists>rows rc. stmt d = Inr (rows, rc, d)"
  shows "\<exists>v. execute_query inst stmt [] True w = (Returned v, w\<lparr>opened := Suc (opened w)\<rparr>)
            \<and> (v = PyNone \<or> (\<exists>rows. v = PyList rows))"
proof -
  obtain rows rc where "stmt (db w) = Inr (rows, rc, db w)"
    using assms by blast
  then show ?thesis
    by (simp add: execute_query_eq Let_def)
qed

lemma get_all_organisations_cases:
  "\<exists>v. get_all_organisations inst w = (Returned v, w\<lparr>opened := Suc (opened w)\<rparr>)
        \<and> (v = PyNone \<or> (\<exists>rows. v = PyList rows))"
  unfolding get_all_organisations_def
  by (rule fetch_query_cases) (simp add: select_all_organisations_def)

lemma get_all_events_cases:
  "\<exists>v. get_all_events inst w = (Returned v, w\<lparr>opened := Suc (opened w)\<rparr>)
        \<and> (v = PyNone \<or> (\<exists>rows. v = PyList rows))"
  unfolding get_all_events_def
  by (rule fetch_query_cases) (simp add: select_all_events_def)

lemma get_all_volunteers_cases:
  "\<exists>v. get_all_volunteers inst w = (Returned v, w\<lparr>opened := Suc (opened w)\<rparr>)
        \<and> (v = PyNone \<or> (\<exists>rows. v = PyList rows))"
  unfolding get_all_volunteers_def
  by (rule fetch_query_cases) (simp add: select_all_volunteers_def)

lemma test_database_connection_cases:
  "\<exists>b. test_database_connection inst w = (Returned b, w\<lparr>opened := Suc (opened w)\<rparr>)"
  by (auto simp: test_database_connection_eq Let_def)

lemma len_or_zero_eq:
  "v = PyNone \<or> (\<exists>rows. v = PyList rows) \<Longrightarrow>
     len_or_zero v = Returned (case v of PyList rows \<Rightarrow> length rows | _ \<Rightarrow> 0)"
  by (auto simp: len_or_zero_def)

text \<open>
  C10. The dashboard never raises and flashes no message. Its four data access calls
  return; the page shows the result of \<open>test_database_connection\<close> and, for each of the
  three listings, the length of the sequence returned, which is \<open>0\<close> both when the listing
  returned the failure sentinel \<^verbatim>\<open>None\<close> and when it returned an empty sequence: the
  page of a storage fault is the page of an empty table.
\<close>

theorem index_fault_shown_as_zero:
  "\<exists>db_status vs os es w1 w2 w3 w4.
      test_database_connection inst w = (Returned db_status, w1)
    \<and> get_all_volunteers inst w1 = (Returned vs, w2)
    \<and> get_all_organisations inst w2 = (Returned os, w3)
    \<and> get_all_events inst w3 = (Returned es, w4)
    \<and> (\<exists>volunteer_count organisation_count event_count.
          index inst w =
            (Returned (RenderTemplate
                         (IndexHtml db_status volunteer_count organisation_count event_count),
                       []), w4)
        \<and> (vs = PyNone \<or> vs = PyList [] \<longrightarrow> volunteer_count = 0)
        \<and> (os = PyNone \<or> os = PyList [] \<longrightarrow> organisation_count = 0)
        \<and> (es = PyNone \<or> es = PyList [] \<longrightarrow> event_count = 0)
        \<and> (\<forall>rows. vs = PyList rows \<longrightarrow> volunteer_count = length rows)
        \<and> (\<forall>rows. os = PyList rows \<longrightarrow> organisation_count = length rows)
        \<and> (\<forall>rows. es = PyList rows \<longrightarrow> event_count = length rows))"
proof -
  obtain b w1 where t: "test_database_connection inst w = (Returned b, w1)"
    using test_database_connection_cases by blast
  obtain vs w2 where v: "get_all_volunteers inst w1 = (Returned vs, w2)"
    and vv: "vs = PyNone \<or> (\<exists>rows. vs = PyList rows)"
    using get_all_volunteers_cases by blast
  obtain os w3 where o: "get_all_organisations inst w2 = (Returned os, w3)"
    and oo: "os = PyNone \<or> (\<exists>rows. os = PyList rows)"
    using get_all_organisations_cases by blast
  obtain es w4 where e: "get_all_events inst w3 = (Returned es, w4)"
    and ee: "es = PyNone \<or> (\<exists>rows. es = PyList rows)"
    using get_all_events_cases by blast
  let ?n = "\<lambda>v. case v of PyList rows \<Rightarrow> length rows | _ \<Rightarrow> 0"
  have i: "index inst w =
      (Returned (RenderTemplate (IndexHtml b (?n vs) (?n os) (?n es)), []), w4)"
    using t v o e len_or_zero_eq [OF vv] len_or_zero_eq [OF oo] len_or_zero_eq [OF ee]
    by (simp add: index_def then_do_def)
  have z: "(vs = PyNone \<or> vs = PyList [] \<longrightarrow> ?n vs = 0)
        \<and> (os = PyNone \<or> os = PyList [] \<longrightarrow> ?n os = 0)
        \<and> (es = PyNone \<or> es = PyList [] \<longrightarrow> ?n es = 0)
        \<and> (\<forall>rows. vs = PyList rows \<longrightarrow> ?n vs = length rows)
        \<and> (\<forall>rows. os = PyList rows \<longrightarrow> ?n os = length rows)
        \<and> (\<forall>rows. es = PyList rows \<longrightarrow> ?n es = length rows)"
    by auto
  show ?thesis
    using t v o e i z by blast
qed


text \<open>
  The dashboard when the connection of the volunteer listing fails, and the dashboard of
  the same database with an empty VOLUNTEER table and no fault: the same page, with the
  connection test true in both.
\<close>

theorem index_fault_witness:
  "index (demo_inst NoAction (\<lambda>k. if k = 1 then calm\<lparr>connect_fault := Some ConnectionFailure\<rparr> else calm))
     \<lparr>db = demo_db, opened = 0\<rparr>
     = (Returned (RenderTemplate (IndexHtml True 0 1 1), []), \<lparr>db = demo_db, opened = 4\<rparr>)
   \<and> index (demo_inst NoAction (\<lambda>k. calm)) \<lparr>db = demo_db\<lparr>volunteers := []\<rparr>, opened = 0\<rparr>
     = (Returned (RenderTemplate (IndexHtml True 0 1 1), []),
        \<lparr>db = demo_db\<lparr>volunteers := []\<rparr>, opened = 4\<rparr>)"
proof -
  let ?I = "demo_inst NoAction (\<lambda>k. if k = 1 then calm\<lparr>connect_fault := Some ConnectionFailure\<rparr> else calm)"
  let ?J = "demo_inst NoAction (\<lambda>k. calm)"
  let ?W = "\<lparr>db = demo_db, opened = 0\<rparr>"
  let ?V = "\<lparr>db = demo_db\<lparr>volunteers := []\<rparr>, opened = 0\<rparr>"
  have t: "test_database_connection ?I ?W = (Returned True, ?W\<lparr>opened := 1\<rparr>)"
    by (simp add: test_database_connection_eq Let_def calm_def demo_inst_def expected_tables_def)
  have v: "get_all_volunteers ?I (?W\<lparr>opened := 1\<rparr>) = (Returned PyNone, ?W\<lparr>opened := 2\<rparr>)"
    by (simp add: get_all_volunteers_eq Let_def calm_def demo_inst_def)
  have o: "\<exists>r. get_all_organisations ?I (?W\<lparr>opened := 2\<rparr>) = (Returned (PyList [r]), ?W\<lparr>opened := 3\<rparr>)"
    by (simp add: get_all_organisations_def execute_query_eq select_all_organisations_def Let_def demo_defs)
  have e: "\<exists>r. get_all_events ?I (?W\<lparr>opened := 3\<rparr>) = (Returned (PyList [r]), ?W\<lparr>opened := 4\<rparr>)"
    by (simp add: get_all_events_def execute_query_eq select_all_events_def Let_def demo_defs)
  have t': "test_database_connection ?J ?V = (Returned True, ?V\<lparr>opened := 1\<rparr>)"
    by (simp add: test_database_connection_eq Let_def calm_def demo_inst_def expected_tables_def)
  have v': "get_all_volunteers ?J (?V\<lparr>opened := 1\<rparr>) = (Returned (PyList []), ?V\<lparr>opened := 2\<rparr>)"
    by (simp add: get_all_volunteers_eq Let_def demo_defs)
  have o': "\<exists>r. get_all_organisations ?J (?V\<lparr>opened := 2\<rparr>) = (Returned (PyList [r]), ?V\<lparr>opened := 3\<rparr>)"
    by (simp add: get_all_organisations_def execute_query_eq select_all_organisations_def Let_def demo_defs)
  have e': "\<exists>r. get_all_events ?J (?V\<lparr>opened := 3\<rparr>) = (Returned (PyList [r]), ?V\<lparr>opened := 4\<rparr>)"
    by (simp add: get_all_events_def execute_query_eq select_all_events_def Let_def demo_defs)
  have "index ?I ?W = (Returned (RenderTemplate (IndexHtml True 0 1 1), []), ?W\<lparr>opened := 4\<rparr>)"
    using index_fault_shown_as_zero [of ?I ?W] t v o e by auto
  moreover have "index ?J ?V = (Returned (RenderTemplate (IndexHtml True 0 1 1), []), ?V\<lparr>opened := 4\<rparr>)"
    using index_fault_shown_as_zero [of ?J ?V] t' v' o' e' by auto
  ultimately show ?thesis by simp
qed

subsection \<open>Event statistics\<close>

lemma get_event_statistics_eq:
  "get_event_statistics inst w =
     (let k = conditions_at inst (opened w); w' = w\<lparr>opened := Suc (opened w)\<rparr>
      in if connect_fault k \<noteq> None \<or> prepare_fault k \<noteq> None \<or> step_fault k \<noteq> None
            \<or> fetch_fault k \<noteq> None
         then (Returned PyNone, w')
         else (case event_statistics inst (db w) of
                 Inl f \<Rightarrow> (Returned PyNone, w')
               | Inr (rows, rc, d) \<Rightarrow> (Returned (PyList rows), w')))"
  by (simp add: get_event_statistics_def execute_query_eq Let_def split: sum.splits)

text \<open>
  The group of a key holds the joined rows of the (event, organisation) pairs with that
  key, so its \<^verbatim>\<open>COUNT(ve.volunteer_id)\<close> is the number of those pairs times the number
  of VOLUNTEER_EVENT rows of the event.
\<close>

lemma left_join_Cons:
  "left_join on (l # ls) rs =
     (case filter (on l) rs of [] \<Rightarrow> [(l, None)] | ms \<Rightarrow> map (\<lambda>r. (l, Some r)) ms)
     @ left_join on ls rs"
  by (simp add: left_join_def)

lemma left_join_Nil: "left_join on [] rs = []"
  by (simp add: left_join_def)

lemma filter_left_join:
  "filter (\<lambda>r. P (fst r)) (left_join on ls rs) = left_join on (filter P ls) rs"
proof (induction ls)
  case Nil
  show ?case by (simp add: left_join_Nil)
next
  case (Cons l ls)
  show ?case
    by (cases "filter (on l) rs") (simp_all add: left_join_Cons Cons.IH left_join_Nil comp_def)
qed

lemma count_column_left_join:
  "count_column (left_join on ls rs) = int (sum_list (map (\<lambda>l. length (filter (on l) rs)) ls))"
proof (induction ls)
  case Nil
  show ?case by (simp add: left_join_Nil count_column_def)
next
  case (Cons l ls)
  then show ?case
    by (cases "filter (on l) rs") (simp_all add: left_join_Cons count_column_def comp_def)
qed

lemma fst_set_left_join: "fst ` set (left_join on ls rs) = set ls"
proof (induction ls)
  case Nil
  show ?case by (simp add: left_join_Nil)
next
  case (Cons l ls)
  then show ?case
    by (cases "filter (on l) rs") (auto simp: left_join_Cons image_Un)
qed

lemma sum_list_const:
  "(\<And>x. x \<in> set xs \<Longrightarrow> f x = (n :: nat)) \<Longrightarrow> sum_list (map f xs) = length xs * n"
  by (induction xs) auto

lemma group_count:
  "count_column (filter (\<lambda>r. stat_key (fst r) = k)
       (left_join (\<lambda>p ve. event_id (fst p) = ve_event_id ve) (event_pairs d) (volunteer_events d)))
     = int (length (filter (\<lambda>p. stat_key p = k) (event_pairs d)))
       * int (length (registrations d (fst k)))"
proof -
  have each: "length (filter (\<lambda>ve. event_id (fst p) = ve_event_id ve) (volunteer_events d))
                = length (registrations d (fst k))"
    if "p \<in> set (filter (\<lambda>p. stat_key p = k) (event_pairs d))" for p
  proof -
    from that have "event_id (fst p) = fst k"
      by (auto simp: stat_key_def)
    then show ?thesis
      by (simp add: registrations_def eq_commute)
  qed
  have "count_column (filter (\<lambda>r. stat_key (fst r) = k)
       (left_join (\<lambda>p ve. event_id (fst p) = ve_event_id ve) (event_pairs d) (volunteer_events d)))
     = count_column (left_join (\<lambda>p ve. event_id (fst p) = ve_event_id ve)
         (filter (\<lambda>p. stat_key p = k) (event_pairs d)) (volunteer_events d))"
    by (simp add: filter_left_join [of "\<lambda>p. stat_key p = k"])
  also have "\<dots> = int (sum_list (map
        (\<lambda>p. length (filter (\<lambda>ve. event_id (fst p) = ve_event_id ve) (volunteer_events d)))
        (filter (\<lambda>p. stat_key p = k) (event_pairs d))))"
    by (rule count_column_left_join)
  also have "\<dots> = int (length (filter (\<lambda>p. stat_key p = k) (event_pairs d))
                        * length (registrations d (fst k)))"
    using sum_list_const [of "filter (\<lambda>p. stat_key p = k) (event_pairs d)"
            "\<lambda>p. length (filter (\<lambda>ve. event_id (fst p) = ve_event_id ve) (volunteer_events d))"
            "length (registrations d (fst k))"] each
    by simp
  finally show ?thesis by simp
qed

lemma event_statistics_unsorted:
  "\<exists>ks. set ks = stat_key ` set (event_pairs d) \<and> distinct ks
      \<and> event_statistics inst d =
          Inr (sort_key (\<lambda>r. - stat_volunteer_count r)
                 (map (\<lambda>k. stat_row inst k
                         (int (length (filter (\<lambda>p. stat_key p = k) (event_pairs d)))
                          * int (length (registrations d (fst k))))) ks),
               - 1, d)"
proof -
  let ?joined = "left_join (\<lambda>p ve. event_id (fst p) = ve_event_id ve) (event_pairs d)
                   (volunteer_events d)"
  let ?ks = "remdups (map (\<lambda>(p, ve). stat_key p) ?joined)"
  have k: "(\<lambda>(p, ve). stat_key p) = (\<lambda>r. stat_key (fst r))"
    by (auto simp: fun_eq_iff)
  have "set ?ks = stat_key ` fst ` set ?joined"
    by (simp add: k image_image)
  then have s: "set ?ks = stat_key ` set (event_pairs d)"
    by (simp add: fst_set_left_join)
  have "event_statistics inst d =
          Inr (sort_key (\<lambda>r. - stat_volunteer_count r)
                 (map (\<lambda>k. stat_row inst k
                         (int (length (filter (\<lambda>p. stat_key p = k) (event_pairs d)))
                          * int (length (registrations d (fst k))))) ?ks),
               - 1, d)"
    unfolding event_statistics_def Let_def group_by_def
    by (simp add: k comp_def group_count)
  with s show ?thesis
    by (intro exI [of _ ?ks]) simp
qed


lemma set_event_pairs:
  "set (event_pairs d) =
     {(e, org). e \<in> set (events d) \<and> org \<in> set (organisations d) \<and> event_org_id e = org_id org}"
  by (auto simp: event_pairs_def)

text \<open>With unique event and organisation ids every key belongs to one pair.\<close>

lemma multiplicity_one:
  assumes ev: "distinct (map event_id (events d))"
    and og: "distinct (map org_id (organisations d))"
  shows "distinct (event_pairs d)"
    and "inj_on stat_key (set (event_pairs d))"
    and "p \<in> set (event_pairs d)
           \<Longrightarrow> length (filter (\<lambda>q. stat_key q = stat_key p) (event_pairs d)) = 1"
proof -
  from ev have de: "distinct (events d)" and ie: "inj_on event_id (set (events d))"
    by (simp_all add: distinct_map)
  from og have dg: "distinct (organisations d)" and ig: "inj_on org_id (set (organisations d))"
    by (simp_all add: distinct_map)
  show dp: "distinct (event_pairs d)"
    using de dg by (simp add: event_pairs_def distinct_product)
  show inj: "inj_on stat_key (set (event_pairs d))"
  proof (rule inj_onI)
    fix p q
    assume p: "p \<in> set (event_pairs d)" and q: "q \<in> set (event_pairs d)"
      and k: "stat_key p = stat_key q"
    from p q have mem: "fst p \<in> set (events d)" "fst q \<in> set (events d)"
      "snd p \<in> set (organisations d)" "snd q \<in> set (organisations d)"
      and link: "event_org_id (fst p) = org_id (snd p)" "event_org_id (fst q) = org_id (snd q)"
      by (auto simp: set_event_pairs)
    from k have "event_id (fst p) = event_id (fst q)"
      by (simp add: stat_key_def)
    with ie mem have e: "fst p = fst q"
      by (auto dest: inj_onD)
    with link have "org_id (snd p) = org_id (snd q)" by simp
    with ig mem have "snd p = snd q"
      by (auto dest: inj_onD)
    with e show "p = q" by (simp add: prod_eq_iff)
  qed
  show "length (filter (\<lambda>q. stat_key q = stat_key p) (event_pairs d)) = 1"
    if p: "p \<in> set (event_pairs d)"
  proof -
    have "{q. stat_key q = stat_key p} \<inter> set (event_pairs d) = {p}"
      using p inj by (auto dest: inj_onD)
    then show ?thesis
      using dp by (simp add: distinct_length_filter)
  qed
qed

lemma event_statistics_rows:
  "\<exists>rows. event_statistics inst d = Inr (rows, - 1, d)
     \<and> sorted (map (\<lambda>r. - stat_volunteer_count r) rows)
     \<and> (\<forall>r \<in> set rows.
           0 \<le> stat_volunteer_count r
         \<and> stat_status r =
             (if stat_volunteer_count r \<ge> stat_max_volunteers r then lit ''Full''
              else if stat_volunteer_count r > 0 then lit ''Partial''
              else lit ''Empty''))
     \<and> set rows =
           (\<lambda>p. stat_row inst (stat_key p)
                  (int (length (filter (\<lambda>q. stat_key q = stat_key p) (event_pairs d)))
                   * int (length (registrations d (event_id (fst p)))))) ` set (event_pairs d)
     \<and> (distinct (map event_id (events d)) \<and> distinct (map org_id (organisations d))
          \<longrightarrow> set rows =
                (\<lambda>p. stat_row inst (stat_key p)
                       (int (length (registrations d (event_id (fst p)))))) ` set (event_pairs d)
              \<and> length rows = length (event_pairs d))"
proof -
  let ?row = "\<lambda>k. stat_row inst k
                (int (length (filter (\<lambda>p. stat_key p = k) (event_pairs d)))
                 * int (length (registrations d (fst k))))"
  obtain ks where ks: "set ks = stat_key ` set (event_pairs d)" and dks: "distinct ks"
    and ev: "event_statistics inst d
               = Inr (sort_key (\<lambda>r. - stat_volunteer_count r) (map ?row ks), - 1, d)"
    using event_statistics_unsorted [of d inst] by blast
  let ?rows = "sort_key (\<lambda>r. - stat_volunteer_count r) (map ?row ks)"
  have srt: "sorted (map (\<lambda>r. - stat_volunteer_count r) ?rows)"
    by simp
  have st: "0 \<le> stat_volunteer_count r
         \<and> stat_status r =
             (if stat_volunteer_count r \<ge> stat_max_volunteers r then lit ''Full''
              else if stat_volunteer_count r > 0 then lit ''Partial''
              else lit ''Empty'')" if "r \<in> set ?rows" for r
  proof -
    from that obtain k where "r = ?row k" by auto
    then show ?thesis
      by (cases k) (simp add: stat_row_def)
  qed
  have fk: "fst (stat_key p) = event_id (fst p)" for p
    by (simp add: stat_key_def)
  have img: "set ?rows =
           (\<lambda>p. stat_row inst (stat_key p)
                  (int (length (filter (\<lambda>q. stat_key q = stat_key p) (event_pairs d)))
                   * int (length (registrations d (event_id (fst p)))))) ` set (event_pairs d)"
    by (simp add: ks image_image fk)
  have keyed: "set ?rows =
                (\<lambda>p. stat_row inst (stat_key p)
                       (int (length (registrations d (event_id (fst p)))))) ` set (event_pairs d)
              \<and> length ?rows = length (event_pairs d)"
    if u: "distinct (map event_id (events d)) \<and> distinct (map org_id (organisations d))"
  proof -
    from u have dp: "distinct (event_pairs d)"
      and inj: "inj_on stat_key (set (event_pairs d))"
      and one: "\<And>p. p \<in> set (event_pairs d)
                  \<Longrightarrow> length (filter (\<lambda>q. stat_key q = stat_key p) (event_pairs d)) = 1"
      using multiplicity_one [of d] by blast+
    have a: "set ?rows =
                (\<lambda>p. stat_row inst (stat_key p)
                       (int (length (registrations d (event_id (fst p)))))) ` set (event_pairs d)"
      unfolding img using one by (intro image_cong) simp_all
    have "length ?rows = length ks" by simp
    also have "\<dots> = card (set ks)"
      using dks by (simp add: distinct_card)
    also have "\<dots> = card (set (event_pairs d))"
      unfolding ks using inj by (rule card_image)
    also have "\<dots> = length (event_pairs d)"
      using dp by (simp add: distinct_card)
    finally show ?thesis using a by simp
  qed
  show ?thesis
    using ev srt st img keyed by (intro exI [of _ ?rows]) blast
qed


lemma sorted_neg_iff: "sorted (map (\<lambda>r. - f r) xs) = sorted_wrt (\<ge>) (map (f :: 'a \<Rightarrow> int) xs)"
  by (simp add: sorted_map sorted_wrt_map)

lemmas stats_eval =
  get_event_statistics_eq event_statistics_def event_pairs_def stat_key_def stat_row_def
  left_join_def group_by_def count_column_def
  Let_def stats_db_def briefing_db_def mk_stat_def demo_defs

text \<open>
  C1, as stated, fails: an event with \<open>max_volunteers = 0\<close> and no registration has
  registrant count \<open>0\<close> and the status \<^verbatim>\<open>Full\<close>, not \<^verbatim>\<open>Empty\<close>; the first branch of
  the CASE wins.
\<close>

theorem event_statistics_zero_capacity_counterexample:
  "get_event_statistics (demo_inst NoAction (\<lambda>k. calm)) \<lparr>db = briefing_db, opened = 0\<rparr>
     = (Returned (PyList [mk_stat ''Briefing'' 0 0 ''Full'']), \<lparr>db = briefing_db, opened = 1\<rparr>)
   \<and> stat_volunteer_count (mk_stat ''Briefing'' 0 0 ''Full'') = 0
   \<and> stat_status (mk_stat ''Briefing'' 0 0 ''Full'') \<noteq> lit ''Empty''"
  by (simp add: stats_eval)

text \<open>
  C1, amended. For every database state \<open>get_event_statistics\<close> returns, without raising
  and without changing the tables, \<^verbatim>\<open>None\<close> or a sequence (a sequence when the
  connection meets no fault). Every row of the sequence carries the status \<^verbatim>\<open>Full\<close>
  when its registrant count is at least \<open>max_volunteers\<close>, \<^verbatim>\<open>Partial\<close> when the count is
  positive and below \<open>max_volunteers\<close>, and \<^verbatim>\<open>Empty\<close> when the count is \<open>0\<close> and
  \<open>max_volunteers\<close> is positive; counts are not negative, and the sequence is ordered by
  registrant count descending. The rows are exactly the rows \<open>stat_row\<close> of the events
  joined to their organisation, each with the columns of its event and organisation and,
  as registrant count, the number of VOLUNTEER_EVENT rows of the event times the number
  of joined pairs that share its GROUP BY key. When event ids and organisation ids are
  unique that number is one: there is one row per event that has its organisation, and
  its registrant count is the number of the event's VOLUNTEER_EVENT rows.
\<close>

theorem event_statistics_status_and_order:
  "(\<exists>v w'. get_event_statistics inst w = (Returned v, w') \<and> db w' = db w
            \<and> (v = PyNone \<or> (\<exists>rows. v = PyList rows)))
   \<and> (get_event_statistics inst w = (Returned (PyList rows), w')
        \<longrightarrow> (\<forall>r \<in> set rows.
               (stat_volunteer_count r \<ge> stat_max_volunteers r \<longrightarrow> stat_status r = lit ''Full'')
             \<and> (0 < stat_volunteer_count r \<and> stat_volunteer_count r < stat_max_volunteers r
                  \<longrightarrow> stat_status r = lit ''Partial'')
             \<and> (stat_volunteer_count r = 0 \<and> 0 < stat_max_volunteers r
                  \<longrightarrow> stat_status r = lit ''Empty'')
             \<and> 0 \<le> stat_volunteer_count r)
            \<and> sorted_wrt (\<ge>) (map stat_volunteer_count rows)
            \<and> set rows =
                 (\<lambda>p. stat_row inst (stat_key p)
                        (int (length (filter (\<lambda>q. stat_key q = stat_key p)
                                        (event_pairs (db w))))
                         * int (length (registrations (db w) (event_id (fst p))))))
                 ` set (event_pairs (db w))
            \<and> (distinct (map event_id (events (db w)))
                 \<and> distinct (map org_id (organisations (db w)))
                 \<longrightarrow> set rows =
                       (\<lambda>p. stat_row inst (stat_key p)
                              (int (length (registrations (db w) (event_id (fst p))))))
                       ` set (event_pairs (db w))
                     \<and> length rows = length (event_pairs (db w))))
   \<and> set (event_pairs (db w)) =
        {(e, org). e \<in> set (events (db w)) \<and> org \<in> set (organisations (db w))
                   \<and> event_org_id e = org_id org}
   \<and> (connect_fault (conditions_at inst (opened w)) = None
        \<and> prepare_fault (conditions_at inst (opened w)) = None
        \<and> step_fault (conditions_at inst (opened w)) = None
        \<and> fetch_fault (conditions_at inst (opened w)) = None
        \<longrightarrow> (\<exists>rows w'. get_event_statistics inst w = (Returned (PyList rows), w')))"
proof -
  obtain rs where rs: "event_statistics inst (db w) = Inr (rs, - 1, db w)"
    and srt: "sorted (map (\<lambda>r. - stat_volunteer_count r) rs)"
    and st: "\<forall>r \<in> set rs.
           0 \<le> stat_volunteer_count r
         \<and> stat_status r =
             (if stat_volunteer_count r \<ge> stat_max_volunteers r then lit ''Full''
              else if stat_volunteer_count r > 0 then lit ''Partial''
              else lit ''Empty'')"
    and img: "set rs =
           (\<lambda>p. stat_row inst (stat_key p)
                  (int (length (filter (\<lambda>q. stat_key q = stat_key p) (event_pairs (db w))))
                   * int (length (registrations (db w) (event_id (fst p))))))
           ` set (event_pairs (db w))"
    and keyed: "distinct (map event_id (events (db w)))
                 \<and> distinct (map org_id (organisations (db w)))
          \<longrightarrow> set rs =
                (\<lambda>p. stat_row inst (stat_key p)
                       (int (length (registrations (db w) (event_id (fst p))))))
                ` set (event_pairs (db w))
              \<and> length rs = length (event_pairs (db w))"
    using event_statistics_rows [of inst "db w"] by blast
  have a: "\<exists>v w'. get_event_statistics inst w = (Returned v, w') \<and> db w' = db w
            \<and> (v = PyNone \<or> (\<exists>rows. v = PyList rows))"
    using rs by (simp add: get_event_statistics_eq Let_def)
  have b: "(\<forall>r \<in> set rows.
               (stat_volunteer_count r \<ge> stat_max_volunteers r \<longrightarrow> stat_status r = lit ''Full'')
             \<and> (0 < stat_volunteer_count r \<and> stat_volunteer_count r < stat_max_volunteers r
                  \<longrightarrow> stat_status r = lit ''Partial'')
             \<and> (stat_volunteer_count r = 0 \<and> 0 < stat_max_volunteers r
                  \<longrightarrow> stat_status r = lit ''Empty'')
             \<and> 0 \<le> stat_volunteer_count r)
            \<and> sorted_wrt (\<ge>) (map stat_volunteer_count rows)
            \<and> set rows =
                 (\<lambda>p. stat_row inst (stat_key p)
                        (int (length (filter (\<lambda>q. stat_key q = stat_key p)
                                        (event_pairs (db w))))
                         * int (length (registrations (db w) (event_id (fst p))))))
                 ` set (event_pairs (db w))
            \<and> (distinct (map event_id (events (db w)))
                 \<and> distinct (map org_id (organisations (db w)))
                 \<longrightarrow> set rows =
                       (\<lambda>p. stat_row inst (stat_key p)
                              (int (length (registrations (db w) (event_id (fst p))))))
                       ` set (event_pairs (db w))
                     \<and> length rows = length (event_pairs (db w)))"
    if h: "get_event_statistics inst w = (Returned (PyList rows), w')"
  proof -
    from h rs have e: "rows = rs"
      by (auto simp: get_event_statistics_eq Let_def split: if_splits)
    have 1: "\<forall>r \<in> set rows.
               (stat_volunteer_count r \<ge> stat_max_volunteers r \<longrightarrow> stat_status r = lit ''Full'')
             \<and> (0 < stat_volunteer_count r \<and> stat_volunteer_count r < stat_max_volunteers r
                  \<longrightarrow> stat_status r = lit ''Partial'')
             \<and> (stat_volunteer_count r = 0 \<and> 0 < stat_max_volunteers r
                  \<longrightarrow> stat_status r = lit ''Empty'')
             \<and> 0 \<le> stat_volunteer_count r"
      using st e by auto
    have 2: "sorted_wrt (\<ge>) (map stat_volunteer_count rows)"
      using srt e by (simp add: sorted_neg_iff)
    show ?thesis
      using 1 2 img keyed unfolding e by (intro conjI)
  qed
  have c: "\<exists>rows w'. get_event_statistics inst w = (Returned (PyList rows), w')"
    if "connect_fault (conditions_at inst (opened w)) = None
        \<and> prepare_fault (conditions_at inst (opened w)) = None
        \<and> step_fault (conditions_at inst (opened w)) = None
        \<and> fetch_fault (conditions_at inst (opened w)) = None"
    using that rs by (simp add: get_event_statistics_eq Let_def)
  show ?thesis
    using a b c set_event_pairs [of "db w"] by (intro conjI impI) blast+
qed

text \<open>
  Three events of capacity 2 with two, no and one registration, each lasting one day: one
  row per event, \<^verbatim>\<open>Full\<close>, \<^verbatim>\<open>Partial\<close>, \<^verbatim>\<open>Empty\<close>, ordered by count 2, 1, 0.
\<close>

theorem event_statistics_witness:
  "get_event_statistics (demo_inst NoAction (\<lambda>k. calm)) \<lparr>db = stats_db, opened = 0\<rparr>
     = (Returned (PyList [mk_stat ''Cleanup'' 2 2 ''Full'', mk_stat ''Fair'' 1 2 ''Partial'',
                          mk_stat ''Picnic'' 0 2 ''Empty'']),
        \<lparr>db = stats_db, opened = 1\<rparr>)
   \<and> sorted_wrt (\<ge>) (map stat_volunteer_count
        [mk_stat ''Cleanup'' 2 2 ''Full'', mk_stat ''Fair'' 1 2 ''Partial'',
         mk_stat ''Picnic'' 0 2 ''Empty''])
   \<and> length [mk_stat ''Cleanup'' 2 2 ''Full'', mk_stat ''Fair'' 1 2 ''Partial'',
              mk_stat ''Picnic'' 0 2 ''Empty''] = length (event_pairs stats_db)
   \<and> map (\<lambda>e. int (length (registrations stats_db (event_id e)))) (events stats_db) = [2, 0, 1]"
proof -
  let ?rows = "[mk_stat ''Cleanup'' 2 2 ''Full'', mk_stat ''Fair'' 1 2 ''Partial'',
                mk_stat ''Picnic'' 0 2 ''Empty'']"
  have e: "get_event_statistics (demo_inst NoAction (\<lambda>k. calm)) \<lparr>db = stats_db, opened = 0\<rparr>
     = (Returned (PyList ?rows), \<lparr>db = stats_db, opened = 1\<rparr>)"
    by (simp add: stats_eval)
  have u: "distinct (map event_id (events (db \<lparr>db = stats_db, opened = 0\<rparr>)))
           \<and> distinct (map org_id (organisations (db \<lparr>db = stats_db, opened = 0\<rparr>)))"
    by (simp add: stats_db_def demo_defs)
  have n: "map (\<lambda>e. int (length (registrations stats_db (event_id e)))) (events stats_db)
             = [2, 0, 1]"
    by (simp add: registrations_def stats_db_def demo_defs)
  from event_statistics_status_and_order
         [of "demo_inst NoAction (\<lambda>k. calm)" "\<lparr>db = stats_db, opened = 0\<rparr>" ?rows
             "\<lparr>db = stats_db, opened = 1\<rparr>"] e u
  have "sorted_wrt (\<ge>) (map stat_volunteer_count ?rows)
        \<and> length ?rows = length (event_pairs (db \<lparr>db = stats_db, opened = 0\<rparr>))"
    by blast
  then show ?thesis using e n by simp
qed

subsection \<open>Skill distribution\<close>

lemma get_skill_distribution_eq:
  "get_skill_distribution inst w =
     (let k = conditions_at inst (opened w); w' = w\<lparr>opened := Suc (opened w)\<rparr>
      in if connect_fault k \<noteq> None \<or> prepare_fault k \<noteq> None \<or> step_fault k \<noteq> None
            \<or> fetch_fault k \<noteq> None
         then (Returned PyNone, w')
         else (case skill_distribution (db w) of
                 Inl f \<Rightarrow> (Returned PyNone, w')
               | Inr (rows, rc, d) \<Rightarrow> (Returned (PyList rows), w')))"
  by (simp add: get_skill_distribution_def execute_query_eq Let_def split: sum.splits)

lemma left_join_Some:
  assumes "(l, Some r) \<in> set (left_join on ls rs)"
  shows "l \<in> set ls \<and> r \<in> set rs \<and> on l r"
proof -
  from assms obtain l' where l': "l' \<in> set ls"
    and m: "(l, Some r) \<in> set (case filter (on l') rs of
                                  [] \<Rightarrow> [(l', None)]
                                | ms \<Rightarrow> map (\<lambda>r. (l', Some r)) ms)"
    by (auto simp: left_join_def)
  show ?thesis
  proof (cases "filter (on l') rs")
    case Nil
    with m show ?thesis by simp
  next
    case (Cons a ms)
    with m have "l = l'" and "r \<in> set (filter (on l') rs)"
      by auto
    with l' show ?thesis by simp
  qed
qed

lemma group_by_member:
  "(k, g) \<in> set (group_by key rows) \<Longrightarrow> set g \<subseteq> set rows \<and> (\<forall>r \<in> set g. key r = k)"
  by (auto simp: group_by_def)

lemma count_column_pos:
  assumes "0 < count_column g"
  shows "\<exists>l r. (l, Some r) \<in> set g"
proof -
  from assms have "filter (\<lambda>r. snd r \<noteq> None) g \<noteq> []"
    by (auto simp: count_column_def)
  then obtain x where x: "x \<in> set g" and n: "snd x \<noteq> None"
    by (metis (mono_tags, lifting) filter_False)
  obtain a b where ab: "x = (a, b)" by (cases x)
  with n obtain y where "b = Some y" by auto
  with x ab show ?thesis by blast
qed

lemma skill_distribution_rows:
  "\<exists>rows. skill_distribution d = Inr (rows, - 1, d)
     \<and> (\<forall>r \<in> set rows.
           1 \<le> dist_volunteer_count r
         \<and> (\<exists>s \<in> set (skills d). \<exists>vs \<in> set (volunteer_skills d).
               vs_skill_id vs = skill_id s \<and> skill_name s = dist_skill_name r
             \<and> skill_category s = dist_skill_category r))
     \<and> sorted (map (\<lambda>r. (- dist_volunteer_count r, dist_skill_category r)) rows)"
proof -
  let ?joined = "left_join (\<lambda>s vs. skill_id s = vs_skill_id vs) (skills d) (volunteer_skills d)"
  let ?groups = "group_by (\<lambda>(s, vs). (skill_id s, skill_name s, skill_category s)) ?joined"
  have *: "\<exists>s \<in> set (skills d). \<exists>vs \<in> set (volunteer_skills d).
               vs_skill_id vs = skill_id s \<and> skill_name s = sname \<and> skill_category s = scat"
    if m: "((sid, sname, scat), g) \<in> set ?groups" and p: "0 < count_column g" for sid sname scat g
  proof -
    obtain l r where lr: "(l, Some r) \<in> set g"
      using count_column_pos [OF p] by blast
    have "set g \<subseteq> set ?joined" and k: "\<forall>x \<in> set g. (\<lambda>(s, vs). (skill_id s, skill_name s, skill_category s)) x = (sid, sname, scat)"
      using group_by_member [OF m] by auto
    then have "(l, Some r) \<in> set ?joined" using lr by blast
    then have "l \<in> set (skills d)" "r \<in> set (volunteer_skills d)" "skill_id l = vs_skill_id r"
      using left_join_Some by fastforce+
    moreover have "skill_name l = sname" "skill_category l = scat"
      using k lr by auto
    ultimately show ?thesis by (intro bexI [of _ l] bexI [of _ r]) auto
  qed
  show ?thesis
    unfolding skill_distribution_def Let_def
    using * by (fastforce simp: Let_def)
qed


text \<open>
  C4. For every database state \<open>get_skill_distribution\<close> returns, without raising and
  without changing the tables, \<^verbatim>\<open>None\<close> or a sequence (a sequence when the connection
  meets no fault). Every row of the sequence has a volunteer count of at least one, and
  is the row of a skill that a VOLUNTEER_SKILL row refers to: no skill with zero
  associated volunteers is returned.
\<close>

theorem skill_distribution_has_volunteers:
  "(\<exists>v w'. get_skill_distribution inst w = (Returned v, w') \<and> db w' = db w
            \<and> (v = PyNone \<or> (\<exists>rows. v = PyList rows)))
   \<and> (get_skill_distribution inst w = (Returned (PyList rows), w')
        \<longrightarrow> (\<forall>r \<in> set rows.
               1 \<le> dist_volunteer_count r
             \<and> (\<exists>s \<in> set (skills (db w)). \<exists>vs \<in> set (volunteer_skills (db w)).
                   vs_skill_id vs = skill_id s \<and> skill_name s = dist_skill_name r
                 \<and> skill_category s = dist_skill_category r)))
   \<and> (connect_fault (conditions_at inst (opened w)) = None
        \<and> prepare_fault (conditions_at inst (opened w)) = None
        \<and> step_fault (conditions_at inst (opened w)) = None
        \<and> fetch_fault (conditions_at inst (opened w)) = None
        \<longrightarrow> (\<exists>rows w'. get_skill_distribution inst w = (Returned (PyList rows), w')))"
proof -
  obtain rs where rs: "skill_distribution (db w) = Inr (rs, - 1, db w)"
    and st: "\<forall>r \<in> set rs.
           1 \<le> dist_volunteer_count r
         \<and> (\<exists>s \<in> set (skills (db w)). \<exists>vs \<in> set (volunteer_skills (db w)).
               vs_skill_id vs = skill_id s \<and> skill_name s = dist_skill_name r
             \<and> skill_category s = dist_skill_category r)"
    using skill_distribution_rows [of "db w"] by blast
  have a: "\<exists>v w'. get_skill_distribution inst w = (Returned v, w') \<and> db w' = db w
            \<and> (v = PyNone \<or> (\<exists>rows. v = PyList rows))"
    using rs by (simp add: get_skill_distribution_eq Let_def)
  have b: "\<forall>r \<in> set rows.
               1 \<le> dist_volunteer_count r
             \<and> (\<exists>s \<in> set (skills (db w)). \<exists>vs \<in> set (volunteer_skills (db w)).
                   vs_skill_id vs = skill_id s \<and> skill_name s = dist_skill_name r
                 \<and> skill_category s = dist_skill_category r)"
    if h: "get_skill_distribution inst w = (Returned (PyList rows), w')"
  proof -
    from h rs have "rows = rs"
      by (auto simp: get_skill_distribution_eq Let_def split: if_splits)
    then show ?thesis using st by simp
  qed
  have c: "\<exists>rows w'. get_skill_distribution inst w = (Returned (PyList rows), w')"
    if "connect_fault (conditions_at inst (opened w)) = None
        \<and> prepare_fault (conditions_at inst (opened w)) = None
        \<and> step_fault (conditions_at inst (opened w)) = None
        \<and> fetch_fault (conditions_at inst (opened w)) = None"
    using that rs by (simp add: get_skill_distribution_eq Let_def)
  show ?thesis using a b c by blast
qed

lemmas skills_eval =
  get_skill_distribution_eq skill_distribution_def left_join_def group_by_def count_column_def
  sql_avg_def sql_max_def sql_min_def List.map_filter_def
  Let_def skills_db_def mk_skill_def mk_volunteer_skill_def mk_dist_def demo_defs

text \<open>
  First Aid is held by two volunteers, Driving by one, Cooking by none: the distribution
  lists First Aid and Driving only.
\<close>

theorem skill_distribution_witness:
  "get_skill_distribution (demo_inst NoAction (\<lambda>k. calm)) \<lparr>db = skills_db, opened = 0\<rparr>
     = (Returned (PyList [mk_dist ''First Aid'' ''Health'' 2 4 6 2,
                          mk_dist ''Driving'' ''Transport'' 1 4 4 4]),
        \<lparr>db = skills_db, opened = 1\<rparr>)
   \<and> list_all (\<lambda>r. 1 \<le> dist_volunteer_count r)
        [mk_dist ''First Aid'' ''Health'' 2 4 6 2, mk_dist ''Driving'' ''Transport'' 1 4 4 4]"
proof -
  have e: "get_skill_distribution (demo_inst NoAction (\<lambda>k. calm)) \<lparr>db = skills_db, opened = 0\<rparr>
     = (Returned (PyList [mk_dist ''First Aid'' ''Health'' 2 4 6 2,
                          mk_dist ''Driving'' ''Transport'' 1 4 4 4]),
        \<lparr>db = skills_db, opened = 1\<rparr>)"
    by (simp add: skills_eval)
  have "\<forall>r \<in> set [mk_dist ''First Aid'' ''Health'' 2 4 6 2, mk_dist ''Driving'' ''Transport'' 1 4 4 4].
          1 \<le> dist_volunteer_count r"
    using skill_distribution_has_volunteers
            [of "demo_inst NoAction (\<lambda>k. calm)" "\<lparr>db = skills_db, opened = 0\<rparr>"
                "[mk_dist ''First Aid'' ''Health'' 2 4 6 2, mk_dist ''Driving'' ''Transport'' 1 4 4 4]"
                "\<lparr>db = skills_db, opened = 1\<rparr>"] e
    by blast
  then show ?thesis using e by (simp add: list_all_iff)
qed

subsection \<open>Deleting an event\<close>

lemma filter_single_remove1:
  "filter P xs = [x] \<Longrightarrow> filter (\<lambda>y. \<not> P y) xs = remove1 x xs"
proof (induction xs)
  case Nil
  then show ?case by simp
next
  case (Cons a xs)
  show ?case
  proof (cases "P a")
    case True
    with Cons.prems have ax: "a = x" and none: "filter P xs = []" by auto
    from none have "filter (\<lambda>y. \<not> P y) xs = xs"
      by (simp add: filter_empty_conv)
    with True ax show ?thesis by simp
  next
    case False
    with Cons.prems have "filter P xs = [x]" by simp
    then have ih: "filter (\<lambda>y. \<not> P y) xs = remove1 x xs" by (rule Cons.IH)
    from \<open>filter P xs = [x]\<close> have "x \<in> set (filter P xs)" by simp
    then have "P x" by simp
    with False have "a \<noteq> x" by auto
    with False ih show ?thesis by simp
  qed
qed

lemma delete_event_eq:
  "delete_event inst eid w =
     (let k = conditions_at inst (opened w); w' = w\<lparr>opened := Suc (opened w)\<rparr>
      in if connect_fault k \<noteq> None \<or> prepare_fault k \<noteq> None then (Returned PyNone, w')
         else if \<not> (- (2 ^ 63) \<le> eid \<and> eid < 2 ^ 63) then (Raised OverflowError, w')
         else if step_fault k \<noteq> None then (Returned PyNone, w')
         else (case (delete_event_stmt inst eid :: event statement) (db w) of
                 Inl f \<Rightarrow> (Returned PyNone, w')
               | Inr (rows, rowcount, d') \<Rightarrow>
                   if commit_fault k \<noteq> None then (Returned PyNone, w')
                   else (Returned (PyInt rowcount), w'\<lparr>db := d'\<rparr>)))"
  by (auto simp: delete_event_def execute_query_eq Let_def split: sum.splits)

text \<open>
  C5, as stated, fails whenever the association table declares its foreign key to EVENT:
  for an event with one registration, under NO ACTION the delete is rejected
  (\<^verbatim>\<open>None\<close> is returned and the EVENT row stays), and under CASCADE the registration
  is deleted with the event.
\<close>

theorem delete_event_referenced_counterexample:
  "delete_event (demo_inst NoAction (\<lambda>k. calm)) 1 \<lparr>db = demo_db, opened = 0\<rparr>
     = (Returned PyNone, \<lparr>db = demo_db, opened = 1\<rparr>)
   \<and> delete_event (demo_inst Cascade (\<lambda>k. calm)) 1 \<lparr>db = demo_db, opened = 0\<rparr>
     = (Returned (PyInt 1),
        \<lparr>db = demo_db\<lparr>events := [], volunteer_events := []\<rparr>, opened = 1\<rparr>)
   \<and> events demo_db = [mk_event 1 ''Cleanup'' 2 1]
   \<and> volunteer_events demo_db = [mk_registration 1 1]"
  by (simp add: delete_event_eq delete_event_stmt_def Let_def demo_defs)

text \<open>
  C5, amended. For every database state with exactly one EVENT row of the given id (a
  64-bit integer, as every stored id is) that no VOLUNTEER_EVENT or EVENT_SKILL row
  refers to, or whose association tables declare no foreign key to EVENT, and when no
  storage fault occurs, \<open>delete_event\<close> returns \<open>1\<close>, removes exactly that EVENT row and
  leaves every other row of every table unchanged; calling it again with the same id
  returns \<open>0\<close> and changes nothing.
\<close>

theorem delete_event_removes_one_row:
  assumes one: "filter (\<lambda>e. event_id e = eid) (events (db w)) = [ev]"
    and range: "- (2 ^ 63) \<le> eid \<and> eid < 2 ^ 63"
    and quiet1: "connect_fault (conditions_at inst (opened w)) = None
                 \<and> prepare_fault (conditions_at inst (opened w)) = None
                 \<and> step_fault (conditions_at inst (opened w)) = None
                 \<and> commit_fault (conditions_at inst (opened w)) = None"
    and quiet2: "connect_fault (conditions_at inst (Suc (opened w))) = None
                 \<and> prepare_fault (conditions_at inst (Suc (opened w))) = None
                 \<and> step_fault (conditions_at inst (Suc (opened w))) = None
                 \<and> commit_fault (conditions_at inst (Suc (opened w))) = None"
    and free_ve: "ve_event_fk inst = NoForeignKey
                  \<or> filter (\<lambda>r. ve_event_id r = eid) (volunteer_events (db w)) = []"
    and free_es: "es_event_fk inst = NoForeignKey
                  \<or> filter (\<lambda>r. es_event_id r = eid) (event_skills (db w)) = []"
  shows "\<exists>w1 w2.
           delete_event inst eid w = (Returned (PyInt 1), w1)
         \<and> db w1 = (db w)\<lparr>events := remove1 ev (events (db w))\<rparr>
         \<and> length (events (db w1)) + 1 = length (events (db w))
         \<and> delete_event inst eid w1 = (Returned (PyInt 0), w2)
         \<and> db w2 = db w1"
proof -
  let ?d1 = "(db w)\<lparr>events := remove1 ev (events (db w))\<rparr>"
  let ?w1 = "w\<lparr>opened := Suc (opened w), db := ?d1\<rparr>"
  let ?w2 = "?w1\<lparr>opened := Suc (Suc (opened w))\<rparr>"
  have rem: "filter (\<lambda>e. event_id e \<noteq> eid) (events (db w)) = remove1 ev (events (db w))"
    using filter_single_remove1 [OF one] by simp
  have "ev \<in> set (filter (\<lambda>e. event_id e = eid) (events (db w)))"
    using one by simp
  then have mem: "ev \<in> set (events (db w))" by simp
  have ve: "(if ve_event_fk inst = Cascade
             then filter (\<lambda>r. ve_event_id r \<noteq> eid) (volunteer_events (db w))
             else volunteer_events (db w)) = volunteer_events (db w)"
    using free_ve by (auto simp: filter_empty_conv filter_id_conv)
  have es: "(if es_event_fk inst = Cascade
             then filter (\<lambda>r. es_event_id r \<noteq> eid) (event_skills (db w))
             else event_skills (db w)) = event_skills (db w)"
    using free_es by (auto simp: filter_empty_conv filter_id_conv)
  have ok: "\<not> ((ve_event_fk inst = NoAction
                \<and> filter (\<lambda>r. ve_event_id r = eid) (volunteer_events (db w)) \<noteq> [])
              \<or> (es_event_fk inst = NoAction
                  \<and> filter (\<lambda>r. es_event_id r = eid) (event_skills (db w)) \<noteq> []))"
    using free_ve free_es by auto
  have s1: "(delete_event_stmt inst eid :: event statement) (db w) = Inr ([], 1, ?d1)"
    unfolding delete_event_stmt_def Let_def
    using one ok by (simp add: rem ve es)
  have gone: "filter (\<lambda>e. event_id e = eid) (events ?d1) = []"
    using rem [symmetric] by (simp add: filter_empty_conv)
  have s2: "(delete_event_stmt inst eid :: event statement) ?d1 = Inr ([], 0, ?d1)"
    unfolding delete_event_stmt_def Let_def using gone by simp
  have c1: "delete_event inst eid w = (Returned (PyInt 1), ?w1)"
    using range quiet1 s1 by (simp add: delete_event_eq Let_def)
  have c2: "delete_event inst eid ?w1 = (Returned (PyInt 0), ?w2)"
    using range quiet2 s2 by (simp add: delete_event_eq Let_def)
  have len: "length (events (db ?w1)) + 1 = length (events (db w))"
    using mem by (simp add: length_remove1) (metis One_nat_def Suc_pred length_pos_if_in_set)
  show ?thesis
    using c1 c2 len by (intro exI [of _ ?w1] exI [of _ ?w2]) simp
qed


text \<open>
  Without a declared foreign key the event with a registration is deleted, its
  registration stays, and the second delete affects no row.
\<close>

theorem delete_event_witness:
  "\<exists>w1 w2.
      delete_event (demo_inst NoForeignKey (\<lambda>k. calm)) 1 \<lparr>db = demo_db, opened = 0\<rparr>
        = (Returned (PyInt 1), w1)
    \<and> db w1 = demo_db\<lparr>events := []\<rparr>
    \<and> volunteer_events (db w1) = [mk_registration 1 1]
    \<and> delete_event (demo_inst NoForeignKey (\<lambda>k. calm)) 1 w1 = (Returned (PyInt 0), w2)
    \<and> db w2 = db w1"
proof -
  let ?I = "demo_inst NoForeignKey (\<lambda>k. calm)"
  let ?W = "\<lparr>db = demo_db, opened = 0\<rparr>"
  have one: "filter (\<lambda>e. event_id e = 1) (events (db ?W)) = [mk_event 1 ''Cleanup'' 2 1]"
    by (simp add: demo_defs)
  have range: "- (2 ^ 63) \<le> (1 :: int) \<and> (1 :: int) < 2 ^ 63"
    by simp
  have quiet1: "connect_fault (conditions_at ?I (opened ?W)) = None
                 \<and> prepare_fault (conditions_at ?I (opened ?W)) = None
                 \<and> step_fault (conditions_at ?I (opened ?W)) = None
                 \<and> commit_fault (conditions_at ?I (opened ?W)) = None"
    by (simp add: demo_inst_def calm_def)
  have quiet2: "connect_fault (conditions_at ?I (Suc (opened ?W))) = None
                 \<and> prepare_fault (conditions_at ?I (Suc (opened ?W))) = None
                 \<and> step_fault (conditions_at ?I (Suc (opened ?W))) = None
                 \<and> commit_fault (conditions_at ?I (Suc (opened ?W))) = None"
    by (simp add: demo_inst_def calm_def)
  have free_ve: "ve_event_fk ?I = NoForeignKey
                  \<or> filter (\<lambda>r. ve_event_id r = 1) (volunteer_events (db ?W)) = []"
    by (simp add: demo_inst_def)
  have free_es: "es_event_fk ?I = NoForeignKey
                  \<or> filter (\<lambda>r. es_event_id r = 1) (event_skills (db ?W)) = []"
    by (simp add: demo_inst_def)
  have d: "(db ?W)\<lparr>events := remove1 (mk_event 1 ''Cleanup'' 2 1) (events (db ?W))\<rparr>
             = demo_db\<lparr>events := []\<rparr>"
    by (simp add: demo_db_def empty_db_def)
  have v: "volunteer_events (demo_db\<lparr>events := []\<rparr>) = [mk_registration 1 1]"
    by (simp add: demo_db_def empty_db_def)
  from delete_event_removes_one_row [OF one range quiet1 quiet2 free_ve free_es]
  obtain w1 w2 where
    "delete_event ?I 1 ?W = (Returned (PyInt 1), w1)"
    "db w1 = (db ?W)\<lparr>events := remove1 (mk_event 1 ''Cleanup'' 2 1) (events (db ?W))\<rparr>"
    "delete_event ?I 1 w1 = (Returned (PyInt 0), w2)"
    "db w2 = db w1"
    by blast
  then show ?thesis
    using d v by (intro exI [of _ w1] exI [of _ w2]) simp
qed

subsection \<open>Creating a volunteer\<close>

lemma validate_email_returns: "\<exists>b. validate_email s = Returned b"
  using validate_email_after_last_at [of s] by blast

lemma collect_errors_eq:
  assumes "validate_email (form_email f) = Returned b"
  shows "collect_errors strptime today f =
     Returned
       ((if form_first_name f = [] then [lit ''First name is required''] else []) @
        (if form_last_name f = [] then [lit ''Last name is required''] else []) @
        (if form_date_of_birth f = [] then [lit ''Date of birth is required''] else []) @
        (if form_email f = [] \<or> \<not> b then [lit ''Valid email address is required''] else []) @
        (if form_phone f = [] \<or> \<not> validate_phone (form_phone f)
         then [lit ''Valid phone number is required''] else []) @
        (if form_address f = [] then [lit ''Address is required''] else []) @
        (case strptime (form_date_of_birth f) of
           None \<Rightarrow> [lit ''Invalid date format'']
         | Some dob \<Rightarrow>
             if dob \<ge> today then [lit ''Date of birth must be in the past''] else []))"
  using assms by (simp add: collect_errors_def)

lemma collect_errors_complete:
  assumes "collect_errors strptime today f = Returned errors"
  shows "(form_first_name f = [] \<longrightarrow> lit ''First name is required'' \<in> set errors)
       \<and> (form_last_name f = [] \<longrightarrow> lit ''Last name is required'' \<in> set errors)
       \<and> (form_date_of_birth f = [] \<longrightarrow> lit ''Date of birth is required'' \<in> set errors)
       \<and> (form_email f = [] \<or> validate_email (form_email f) \<noteq> Returned True
            \<longrightarrow> lit ''Valid email address is required'' \<in> set errors)
       \<and> (form_phone f = [] \<or> \<not> validate_phone (form_phone f)
            \<longrightarrow> lit ''Valid phone number is required'' \<in> set errors)
       \<and> (form_address f = [] \<longrightarrow> lit ''Address is required'' \<in> set errors)
       \<and> (strptime (form_date_of_birth f) = None \<longrightarrow> lit ''Invalid date format'' \<in> set errors)
       \<and> ((\<exists>dob. strptime (form_date_of_birth f) = Some dob \<and> today \<le> dob)
            \<longrightarrow> lit ''Date of birth must be in the past'' \<in> set errors)"
proof -
  obtain b where b: "validate_email (form_email f) = Returned b"
    using validate_email_returns by blast
  note e = assms [unfolded collect_errors_eq [OF b], simplified, symmetric]
  have 1: "form_first_name f = [] \<longrightarrow> lit ''First name is required'' \<in> set errors"
    by (subst e) simp
  have 2: "form_last_name f = [] \<longrightarrow> lit ''Last name is required'' \<in> set errors"
    by (subst e) simp
  have 3: "form_date_of_birth f = [] \<longrightarrow> lit ''Date of birth is required'' \<in> set errors"
    by (subst e) simp
  have 4: "form_email f = [] \<or> validate_email (form_email f) \<noteq> Returned True
            \<longrightarrow> lit ''Valid email address is required'' \<in> set errors"
    using b by (subst e) auto
  have 5: "form_phone f = [] \<or> \<not> validate_phone (form_phone f)
            \<longrightarrow> lit ''Valid phone number is required'' \<in> set errors"
    by (subst e) auto
  have 6: "form_address f = [] \<longrightarrow> lit ''Address is required'' \<in> set errors"
    by (subst e) simp
  have 7: "strptime (form_date_of_birth f) = None \<longrightarrow> lit ''Invalid date format'' \<in> set errors"
    by (subst e) simp
  have 8: "(\<exists>dob. strptime (form_date_of_birth f) = Some dob \<and> today \<le> dob)
            \<longrightarrow> lit ''Date of birth must be in the past'' \<in> set errors"
    by (subst e) auto
  show ?thesis using 1 2 3 4 5 6 7 8 by blast
qed


lemma create_volunteer_opens:
  "opened (snd (create_volunteer inst a b c d e g w :: volunteer pyval outcome \<times> world))
     = Suc (opened w)"
  by (cases "bind_parameters (conditions_at inst (opened w))
               [SqlText a, SqlText b, SqlText c, SqlText d, SqlText e, SqlText g]")
     (auto simp: create_volunteer_eq Let_def simp del: bind_parameters.simps
        split: sum.splits py_exception.splits)

text \<open>
  C3. Take a submitted (POST) create-volunteer request and let \<open>f\<close> hold its six fields,
  stripped. If one of them is empty, or the email fails \<open>validate_email\<close>, or the phone
  fails \<open>validate_phone\<close>, or the date of birth does not parse or parses to a day that is
  not before today, then the handler re-renders the form with the entered values and
  flashes, together and each as an error, the message of every violated rule (at least
  one), and the state is exactly the one before: no row is inserted and no connection
  is opened. \<open>create_volunteer\<close> is not invoked, since any call of it changes the state
  by opening a connection.
\<close>

theorem new_volunteer_rejects_invalid:
  assumes f: "f = \<lparr>form_first_name = strip (form_get form ''first_name''),
                   form_last_name = strip (form_get form ''last_name''),
                   form_date_of_birth = strip (form_get form ''date_of_birth''),
                   form_email = strip (form_get form ''email''),
                   form_phone = strip (form_get form ''phone''),
                   form_address = strip (form_get form ''address'')\<rparr>"
    and invalid:
      "form_first_name f = [] \<or> form_last_name f = [] \<or> form_date_of_birth f = []
       \<or> form_email f = [] \<or> form_phone f = [] \<or> form_address f = []
       \<or> validate_email (form_email f) \<noteq> Returned True
       \<or> \<not> validate_phone (form_phone f)
       \<or> strptime (form_date_of_birth f) = None
       \<or> (\<exists>dob. strptime (form_date_of_birth f) = Some dob \<and> today \<le> dob)"
  shows "\<exists>errors.
           new_volunteer inst strptime today POST form w
             = (Returned (RenderTemplate (NewVolunteerHtml (Some f)),
                          map (\<lambda>e. (e, lit ''error'')) errors), w)
         \<and> errors \<noteq> []
         \<and> (form_first_name f = [] \<longrightarrow> lit ''First name is required'' \<in> set errors)
         \<and> (form_last_name f = [] \<longrightarrow> lit ''Last name is required'' \<in> set errors)
         \<and> (form_date_of_birth f = [] \<longrightarrow> lit ''Date of birth is required'' \<in> set errors)
         \<and> (form_email f = [] \<or> validate_email (form_email f) \<noteq> Returned True
              \<longrightarrow> lit ''Valid email address is required'' \<in> set errors)
         \<and> (form_phone f = [] \<or> \<not> validate_phone (form_phone f)
              \<longrightarrow> lit ''Valid phone number is required'' \<in> set errors)
         \<and> (form_address f = [] \<longrightarrow> lit ''Address is required'' \<in> set errors)
         \<and> (strptime (form_date_of_birth f) = None
              \<longrightarrow> lit ''Invalid date format'' \<in> set errors)
         \<and> ((\<exists>dob. strptime (form_date_of_birth f) = Some dob \<and> today \<le> dob)
              \<longrightarrow> lit ''Date of birth must be in the past'' \<in> set errors)
         \<and> (\<forall>a b c d e g.
               snd (create_volunteer inst a b c d e g w :: volunteer pyval outcome \<times> world) \<noteq> w)"
proof -
  obtain b where b: "validate_email (form_email f) = Returned b"
    using validate_email_returns by blast
  obtain errors where ce: "collect_errors strptime today f = Returned errors"
    using collect_errors_eq [OF b] by blast
  note complete = collect_errors_complete [OF ce]
  from invalid complete have "\<exists>m. m \<in> set errors"
    by blast
  then have ne: "errors \<noteq> []" by auto
  have run: "new_volunteer inst strptime today POST form w
             = (Returned (RenderTemplate (NewVolunteerHtml (Some f)),
                          map (\<lambda>e. (e, lit ''error'')) errors), w)"
    using ce ne unfolding new_volunteer_def f [symmetric] Let_def by simp
  have trace: "snd (create_volunteer inst a b c d e g w :: volunteer pyval outcome \<times> world) \<noteq> w"
    for a b c d e g
    using create_volunteer_opens [of inst a b c d e g w] by auto
  from complete trace have rest:
    "(form_first_name f = [] \<longrightarrow> lit ''First name is required'' \<in> set errors)
         \<and> (form_last_name f = [] \<longrightarrow> lit ''Last name is required'' \<in> set errors)
         \<and> (form_date_of_birth f = [] \<longrightarrow> lit ''Date of birth is required'' \<in> set errors)
         \<and> (form_email f = [] \<or> validate_email (form_email f) \<noteq> Returned True
              \<longrightarrow> lit ''Valid email address is required'' \<in> set errors)
         \<and> (form_phone f = [] \<or> \<not> validate_phone (form_phone f)
              \<longrightarrow> lit ''Valid phone number is required'' \<in> set errors)
         \<and> (form_address f = [] \<longrightarrow> lit ''Address is required'' \<in> set errors)
         \<and> (strptime (form_date_of_birth f) = None
              \<longrightarrow> lit ''Invalid date format'' \<in> set errors)
         \<and> ((\<exists>dob. strptime (form_date_of_birth f) = Some dob \<and> today \<le> dob)
              \<longrightarrow> lit ''Date of birth must be in the past'' \<in> set errors)
         \<and> (\<forall>a b c d e g.
               snd (create_volunteer inst a b c d e g w :: volunteer pyval outcome \<times> world) \<noteq> w)"
    by simp
  show ?thesis
    by (rule exI [of _ errors]) (intro conjI run ne rest)
qed


lemmas form_eval =
  form_get_def demo_form_def demo_fields_def demo_strptime_def strip_def char_isspace_def
  isspace_ranges_def lit_def cp_def

text \<open>
  A form that is valid but for a date of birth one day after today: one message, the form
  again, nothing stored.
\<close>

theorem new_volunteer_tomorrow_witness:
  "new_volunteer (demo_inst NoAction (\<lambda>k. calm)) demo_strptime 739403 POST demo_form
     \<lparr>db = demo_db, opened = 0\<rparr>
   = (Returned (RenderTemplate (NewVolunteerHtml (Some demo_fields)),
                [(lit ''Date of birth must be in the past'', lit ''error'')]),
      \<lparr>db = demo_db, opened = 0\<rparr>)"
proof -
  have f: "demo_fields = \<lparr>form_first_name = strip (form_get demo_form ''first_name''),
                   form_last_name = strip (form_get demo_form ''last_name''),
                   form_date_of_birth = strip (form_get demo_form ''date_of_birth''),
                   form_email = strip (form_get demo_form ''email''),
                   form_phone = strip (form_get demo_form ''phone''),
                   form_address = strip (form_get demo_form ''address'')\<rparr>"
    by (simp add: form_eval)
  have d: "demo_strptime (form_date_of_birth demo_fields) = Some 739404"
    by (simp add: form_eval)
  have invalid:
      "form_first_name demo_fields = [] \<or> form_last_name demo_fields = []
       \<or> form_date_of_birth demo_fields = []
       \<or> form_email demo_fields = [] \<or> form_phone demo_fields = []
       \<or> form_address demo_fields = []
       \<or> validate_email (form_email demo_fields) \<noteq> Returned True
       \<or> \<not> validate_phone (form_phone demo_fields)
       \<or> demo_strptime (form_date_of_birth demo_fields) = None
       \<or> (\<exists>dob. demo_strptime (form_date_of_birth demo_fields) = Some dob \<and> 739403 \<le> dob)"
    using d by simp
  have m: "validate_email (form_email demo_fields) = Returned True"
    by (simp add: validate_email_def index_neg1_def demo_fields_def lit_def cp_def)
  have p: "validate_phone (form_phone demo_fields)"
    by (simp add: phone_eval demo_fields_def)
  have c: "collect_errors demo_strptime 739403 demo_fields
             = Returned [lit ''Date of birth must be in the past'']"
    using d m p by (simp add: collect_errors_def) (simp add: demo_fields_def lit_def)
  from new_volunteer_rejects_invalid
         [where f = demo_fields and form = demo_form and strptime = demo_strptime
            and today = 739403 and inst = "demo_inst NoAction (\<lambda>k. calm)"
            and w = "\<lparr>db = demo_db, opened = 0\<rparr>", OF f invalid]
  obtain errors where
    "new_volunteer (demo_inst NoAction (\<lambda>k. calm)) demo_strptime 739403 POST demo_form
       \<lparr>db = demo_db, opened = 0\<rparr>
     = (Returned (RenderTemplate (NewVolunteerHtml (Some demo_fields)),
                  map (\<lambda>e. (e, lit ''error'')) errors), \<lparr>db = demo_db, opened = 0\<rparr>)"
    by blast
  moreover have "new_volunteer (demo_inst NoAction (\<lambda>k. calm)) demo_strptime 739403 POST demo_form
       \<lparr>db = demo_db, opened = 0\<rparr>
     = (Returned (RenderTemplate (NewVolunteerHtml (Some demo_fields)),
                  map (\<lambda>e. (e, lit ''error'')) [lit ''Date of birth must be in the past'']),
        \<lparr>db = demo_db, opened = 0\<rparr>)"
    using c unfolding new_volunteer_def f [symmetric] Let_def by simp
  ultimately show ?thesis by simp
qed

subsection \<open>Updating a phone number\<close>

lemma get_volunteer_by_id_eq:
  "get_volunteer_by_id inst vid w =
     (let k = conditions_at inst (opened w); w' = w\<lparr>opened := Suc (opened w)\<rparr>
      in if connect_fault k \<noteq> None \<or> prepare_fault k \<noteq> None then (Returned None, w')
         else if \<not> (- (2 ^ 63) \<le> vid \<and> vid < 2 ^ 63) then (Raised OverflowError, w')
         else if step_fault k \<noteq> None \<or> fetch_fault k \<noteq> None then (Returned None, w')
         else (Returned (case filter (\<lambda>v. volunteer_id v = vid) (volunteers (db w)) of
                           [] \<Rightarrow> None
                         | v # rest \<Rightarrow> Some v), w'))"
  by (auto simp: get_volunteer_by_id_def execute_query_eq then_do_def select_volunteer_by_id_def
        Let_def split: list.splits)

text \<open>
  For an id in the signed 64-bit range with no VOLUNTEER row, whatever the method and
  whatever the storage meets, the handler redirects to the volunteer list with the
  message \<^verbatim>\<open>Volunteer not found\<close>; the tables are unchanged and the lookup's connection
  is the only one opened, so \<open>update_volunteer_phone\<close> is not called.
\<close>

lemma update_volunteer_contact_not_found:
  assumes "filter (\<lambda>v. volunteer_id v = vid) (volunteers (db w)) = []"
    and "- (2 ^ 63) \<le> vid \<and> vid < 2 ^ 63"
  shows "update_volunteer_contact inst meth form vid w
           = (Returned (Redirect ViewVolunteers, [(lit ''Volunteer not found'', lit ''error'')]),
              w\<lparr>opened := Suc (opened w)\<rparr>)"
  using assms
  by (simp add: update_volunteer_contact_def get_volunteer_by_id_eq then_do_def Let_def)

text \<open>For every id with no VOLUNTEER row, in range or not, nothing is mutated.\<close>

lemma update_volunteer_contact_no_mutation:
  assumes "filter (\<lambda>v. volunteer_id v = vid) (volunteers (db w)) = []"
  shows "snd (update_volunteer_contact inst meth form vid w) = w\<lparr>opened := Suc (opened w)\<rparr>"
  using assms
  by (simp add: update_volunteer_contact_def get_volunteer_by_id_eq then_do_def Let_def)

text \<open>
  C7 at the id \<open>2^63\<close>, which no VOLUNTEER row has: binding it to the placeholder of the
  lookup raises \<^verbatim>\<open>OverflowError\<close>, which \<^verbatim>\<open>except sqlite3.Error\<close> does not catch, so
  the handler raises instead of redirecting to the volunteer list. Nothing is mutated.
\<close>

theorem update_volunteer_contact_huge_id_raises:
  "update_volunteer_contact (demo_inst NoAction (\<lambda>k. calm)) GET Map.empty 9223372036854775808
     \<lparr>db = demo_db, opened = 0\<rparr>
   = (Raised OverflowError, \<lparr>db = demo_db, opened = 1\<rparr>)
   \<and> filter (\<lambda>v. volunteer_id v = 9223372036854775808) (volunteers demo_db) = []"
  by (simp add: update_volunteer_contact_def get_volunteer_by_id_eq then_do_def Let_def
        demo_inst_def calm_def demo_db_def empty_db_def mk_volunteer_def)

end
